theory Spec2Isabelle
  imports Main
begin

section \<open>JavaScript strings and numbers used by the sources\<close>

text \<open>
  Strings are \<open>char list\<close>. \<open>startsWith\<close>, \<open>split\<close>, array indexing, \<open>toString\<close> on
  non-negative integers and \<open>parseInt\<close> on a decimal prefix are the built-ins that the
  tracker client (\<open>bugs-tracker/src/api/github.js\<close>) and the Worker use.
\<close>

definition startsWith :: "string \<Rightarrow> string \<Rightarrow> bool" where
  "startsWith s p = (take (length p) s = p)"

text \<open>\<open>s.split(c)\<close> for a one-character separator: never the empty array.\<close>

fun split_on :: "char \<Rightarrow> string \<Rightarrow> string list" where
  "split_on c [] = [[]]"
| "split_on c (x # xs) =
     (if x = c then [] # split_on c xs
      else (case split_on c xs of [] \<Rightarrow> [[x]] | w # ws \<Rightarrow> (x # w) # ws))"

text \<open>\<open>xs[i]\<close>: \<open>None\<close> is JavaScript's \<open>undefined\<close>.\<close>

definition nth_opt :: "'a list \<Rightarrow> nat \<Rightarrow> 'a option" where
  "nth_opt xs i = (if i < length xs then Some (xs ! i) else None)"

definition digits :: string where
  "digits = ''0123456789''"

definition isdigit :: "char \<Rightarrow> bool" where
  "isdigit c = (c \<in> set digits)"

function toString_nat :: "nat \<Rightarrow> string" where
  "toString_nat n =
     (if n < 10 then [digits ! n] else toString_nat (n div 10) @ [digits ! (n mod 10)])"
  by pat_completeness auto
termination
  by (relation "measure id") auto

declare toString_nat.simps [simp del]

definition toString_int :: "int \<Rightarrow> string" where
  "toString_int i = (if i < 0 then ''-'' @ toString_nat (nat (- i)) else toString_nat (nat i))"

section \<open>The tracker client: \<open>bugs-tracker/src/api/github.js\<close>\<close>

subsection \<open>Issues as the upstream returns them, and cards\<close>

record label =
  name :: string
  color :: string

record issue =
  number :: int
  title :: string
  body :: "string option"
  html_url :: string
  state :: string
  labels :: "label list"
  assignee :: "string option"
  created_at :: string
  updated_at :: string
  comments :: int

record card =
  card_id :: string
  card_number :: int
  card_title :: string
  card_description :: string
  card_url :: string
  card_state :: string
  card_labels :: "label list"
  card_assignee :: "string option"
  card_created_at :: string
  card_updated_at :: string
  card_comments :: int
  card_severity :: "string option"
  card_category :: "string option"

text \<open>
  \<open>getSeverity\<close> and \<open>getCategory\<close>: \<open>labels.find(...)\<close> is \<^const>\<open>find\<close>, the first
  element in list order; \<open>name.split(':')[1]\<close> may be \<open>undefined\<close> as far as the types
  say, hence the \<open>option\<close>.
\<close>

definition getSeverity :: "label list \<Rightarrow> string option" where
  "getSeverity ls =
     (case find (\<lambda>l. startsWith (name l) ''severity:'') ls of
        Some severityLabel \<Rightarrow> nth_opt (split_on CHR '':'' (name severityLabel)) 1
      | None \<Rightarrow> Some ''medium'')"

definition getCategory :: "label list \<Rightarrow> string option" where
  "getCategory ls =
     (case find (\<lambda>l. startsWith (name l) ''category:'') ls of
        Some categoryLabel \<Rightarrow> nth_opt (split_on CHR '':'' (name categoryLabel)) 1
      | None \<Rightarrow> Some ''general'')"

definition parseIssue :: "issue \<Rightarrow> card" where
  "parseIssue i =
     \<lparr> card_id = toString_int (number i),
       card_number = number i,
       card_title = title i,
       card_description = (case body i of Some b \<Rightarrow> b | None \<Rightarrow> ''''),
       card_url = html_url i,
       card_state = state i,
       card_labels = labels i,
       card_assignee = assignee i,
       card_created_at = created_at i,
       card_updated_at = updated_at i,
       card_comments = comments i,
       card_severity = getSeverity (labels i),
       card_category = getCategory (labels i) \<rparr>"

subsection \<open>\<open>categorizeIssues\<close>\<close>

text \<open>
  The \<open>columns\<close> object has exactly five keys. \<open>columns[column].push(card)\<close> on any other
  key would be a \<open>TypeError\<close>; \<open>column_push\<close> returns \<open>None\<close> there.
\<close>

record columns =
  col_backlog :: "card list"
  col_todo :: "card list"
  col_inProgress :: "card list"
  col_testing :: "card list"
  col_done :: "card list"

definition columnKeys :: "string list" where
  "columnKeys = [''backlog'', ''todo'', ''inProgress'', ''testing'', ''done'']"

definition empty_columns :: columns where
  "empty_columns =
     \<lparr> col_backlog = [], col_todo = [], col_inProgress = [], col_testing = [], col_done = [] \<rparr>"

definition column_push :: "string \<Rightarrow> card \<Rightarrow> columns \<Rightarrow> columns option" where
  "column_push k c cols =
     (if k = ''backlog'' then Some (cols\<lparr>col_backlog := col_backlog cols @ [c]\<rparr>)
      else if k = ''todo'' then Some (cols\<lparr>col_todo := col_todo cols @ [c]\<rparr>)
      else if k = ''inProgress'' then Some (cols\<lparr>col_inProgress := col_inProgress cols @ [c]\<rparr>)
      else if k = ''testing'' then Some (cols\<lparr>col_testing := col_testing cols @ [c]\<rparr>)
      else if k = ''done'' then Some (cols\<lparr>col_done := col_done cols @ [c]\<rparr>)
      else None)"

text \<open>The body of the \<open>forEach\<close> callback that picks the column key of one issue.\<close>

definition categorize_column :: "issue \<Rightarrow> string" where
  "categorize_column i =
     (let ls = map name (labels i) in
      if ''status:done'' \<in> set ls \<or> state i = ''closed'' then ''done''
      else if ''status:testing'' \<in> set ls then ''testing''
      else if ''status:in-progress'' \<in> set ls then ''inProgress''
      else if ''status:todo'' \<in> set ls then ''todo''
      else ''backlog'')"

fun categorize_loop :: "issue list \<Rightarrow> columns \<Rightarrow> columns option" where
  "categorize_loop [] cols = Some cols"
| "categorize_loop (i # rest) cols =
     (case column_push (categorize_column i) (parseIssue i) cols of
        None \<Rightarrow> None
      | Some cols' \<Rightarrow> categorize_loop rest cols')"

definition categorizeIssues :: "issue list \<Rightarrow> columns option" where
  "categorizeIssues issues = categorize_loop issues empty_columns"

subsection \<open>\<open>updateIssueLabels\<close>\<close>

definition statusLabels :: "string list" where
  "statusLabels =
     [''status:backlog'', ''status:todo'', ''status:in-progress'', ''status:testing'',
      ''status:done'']"

text \<open>
  \<open>statusMap\<close> of the board's drop handler (\<open>KanbanColumn.jsx\<close>): the only caller of
  \<open>updateIssueLabels\<close> passes one of its values as \<open>newStatus\<close>.
\<close>

definition statusMap :: "(string \<times> string) list" where
  "statusMap =
     [(''backlog'', ''backlog''), (''todo'', ''todo''), (''inProgress'', ''in-progress''),
      (''testing'', ''testing''), (''done'', ''done'')]"

definition targetColumns :: "string list" where
  "targetColumns = map snd statusMap"

text \<open>The label list that \<open>updateIssueLabels\<close> computes from the fetched issue's labels.\<close>

definition newLabels :: "label list \<Rightarrow> string \<Rightarrow> string list" where
  "newLabels currentIssueLabels newStatus =
     filter (\<lambda>n. n \<notin> set statusLabels) (map name currentIssueLabels)
       @ [''status:'' @ newStatus]"

text \<open>
  The whole method. \<open>this.request\<close> is called on two endpoints, given here as the two
  parameters \<open>get_issue\<close> (\<open>GET /issues/<n>\<close>) and \<open>put_labels\<close>
  (\<open>PUT /issues/<n>/labels\<close>); \<open>Inl\<close> is the \<open>Error\<close> that \<open>request\<close> throws on a
  response that is not ok. The second component is \<open>this.cache\<close> afterwards.
\<close>

definition updateIssueLabels ::
  "(int \<Rightarrow> string + issue) \<Rightarrow> (int \<Rightarrow> string list \<Rightarrow> string + 'r) \<Rightarrow>
     int \<Rightarrow> string \<Rightarrow> (string \<rightharpoonup> 'c) \<Rightarrow> (string + 'r) \<times> (string \<rightharpoonup> 'c)" where
  "updateIssueLabels get_issue put_labels issueNumber newStatus cache =
     (case get_issue issueNumber of
        Inl err \<Rightarrow> (Inl err, cache)
      | Inr currentIssue \<Rightarrow>
          (case put_labels issueNumber (newLabels (labels currentIssue) newStatus) of
             Inl err \<Rightarrow> (Inl err, cache)
           | Inr response \<Rightarrow> (Inr response, Map.empty)))"

subsection \<open>The mapper as the specification words it\<close>

text \<open>
  \<open>spec_toColumn\<close> follows the specification's sentence, not the code: closed with no
  recognized status label is \<open>done\<close>; else the first recognized \<open>status:<name>\<close> label in
  label order gives the column; else \<open>backlog\<close>. It is what \<open>categorize_column\<close> is
  compared with.
\<close>

definition spec_toColumn :: "issue \<Rightarrow> string" where
  "spec_toColumn i =
     (case find (\<lambda>n. n \<in> set statusLabels) (map name (labels i)) of
        None \<Rightarrow> (if state i = ''closed'' then ''done'' else ''backlog'')
      | Some n \<Rightarrow> drop (length ''status:'') n)"

section \<open>The gateway: the Worker (\<open>src/unnamed/part_003\<close>)\<close>

subsection \<open>Key/value namespaces, time and the upstream\<close>

text \<open>
  Modelled from the spec: the key/value namespaces \<open>TOKENS\<close>, \<open>RATE_LIMIT\<close> and \<open>CACHE\<close>
  are bindings of the platform, absent from the sources. A namespace maps a key to a
  value and the time (in seconds) at which the entry expires, \<open>None\<close> for an entry put
  without \<open>expirationTtl\<close>. Expiry is checked when the key is read; \<open>put\<close> with
  \<open>expirationTtl: d\<close> at time \<open>now\<close> overwrites the entry and lets it expire at
  \<open>now + d\<close>.
\<close>

type_synonym 'v kv = "string \<rightharpoonup> ('v \<times> nat option)"

definition kv_get :: "nat \<Rightarrow> 'v kv \<Rightarrow> string \<Rightarrow> 'v option" where
  "kv_get t kv k =
     (case kv k of
        None \<Rightarrow> None
      | Some (v, None) \<Rightarrow> Some v
      | Some (v, Some e) \<Rightarrow> (if t < e then Some v else None))"

definition kv_put :: "nat \<Rightarrow> 'v kv \<Rightarrow> string \<Rightarrow> 'v \<Rightarrow> nat option \<Rightarrow> 'v kv" where
  "kv_put t kv k v expirationTtl = kv(k \<mapsto> (v, map_option (\<lambda>d. t + d) expirationTtl))"

text \<open>The value of a \<open>TOKENS\<close> entry: the object whose JSON text the Worker stores.\<close>

record token_record =
  tok_created :: string
  tok_lastUsed :: string
  tok_type :: "string option"

record env =
  TOKENS :: "token_record kv"
  RATE_LIMIT :: "string kv"
  CACHE :: "string kv"
  GITHUB_OWNER :: string
  GITHUB_REPO :: string
  GITHUB_TOKEN :: string
  ALLOWED_ORIGINS :: "string option"

text \<open>
  What the Worker sends upstream with \<open>fetch\<close>, and what comes back. \<open>up_number\<close> and
  \<open>up_html_url\<close> are the fields \<open>number\<close> and \<open>html_url\<close> of the response's JSON,
  \<open>up_link\<close> its \<open>Link\<close> header.
\<close>

datatype up_payload =
    NoPayload
  | CreateIssue string string "string list"
  | ReplaceLabels "string list"

record up_request =
  up_method :: string
  up_url :: string
  up_authorization :: string
  up_payload :: up_payload

record up_response =
  up_status :: nat
  up_text :: string
  up_number :: "int option"
  up_html_url :: "string option"
  up_link :: "string option"

definition ok :: "up_response \<Rightarrow> bool" where
  "ok r = (200 \<le> up_status r \<and> up_status r \<le> 299)"

text \<open>
  The surroundings of one invocation of the Worker: the clock, the answer of the upstream
  to each call (\<open>None\<close> when \<open>fetch\<close> rejects), and the text of
  \<open>JSON.stringify(stats)\<close> that \<open>handleStats\<close> composes from its three upstream answers
  (dates and rounding, left as a parameter).
\<close>

record world =
  now :: nat
  now_iso :: string
  upstream :: "up_request \<Rightarrow> up_response option"
  stats_text :: "up_response \<Rightarrow> up_response \<Rightarrow> up_response \<Rightarrow> string"

subsection \<open>Requests and responses\<close>

record systemInfo =
  si_os :: "string option"
  si_browser :: "string option"
  si_version :: "string option"
  si_headset :: "string option"

text \<open>
  The parsed JSON body, by the fields the handlers read; \<open>b_labels\<close> is \<open>Some\<close> exactly
  when \<open>labels\<close> is present and an array.
\<close>

record json_body =
  b_title :: "string option"
  b_description :: "string option"
  b_severity :: "string option"
  b_category :: "string option"
  b_steps :: "string option"
  b_expected :: "string option"
  b_actual :: "string option"
  b_systemInfo :: "systemInfo option"
  b_additional :: "string option"
  b_labels :: "string list option"

text \<open>\<open>req_json\<close> is \<open>None\<close> when \<open>request.json()\<close> rejects.\<close>

record request =
  req_method :: string
  req_pathname :: string
  req_searchParams :: "(string \<times> string) list"
  req_origin :: "string option"
  req_ip :: "string option"
  req_app_token :: "string option"
  req_json :: "json_body option"

datatype resp_body =
    NoBody
  | Raw string
  | ErrorJson string
  | GitHubErrorJson nat
  | CreateFailedJson string
  | SubmittedJson "int option" "string option"
  | ReparsedJson string
  | HealthJson string

record response =
  resp_status :: nat
  resp_allow_origin :: "string option"
  resp_content_type :: "string option"
  resp_x_cache :: "string option"
  resp_body :: resp_body

text \<open>
  A handler answers or throws; with the answer come the environment afterwards and the
  upstream calls it made, in order.
\<close>

datatype outcome = Responded response | Threw

type_synonym result = "outcome \<times> env \<times> up_request list"

text \<open>Truthiness of a string that may be absent, and \<open>x || d\<close>.\<close>

definition truthy :: "string option \<Rightarrow> bool" where
  "truthy x = (case x of None \<Rightarrow> False | Some s \<Rightarrow> s \<noteq> [])"

definition or_else :: "string option \<Rightarrow> string \<Rightarrow> string" where
  "or_else x d = (case x of None \<Rightarrow> d | Some s \<Rightarrow> if s = [] then d else s)"

subsection \<open>Helpers\<close>

definition defaultOrigins :: "string list" where
  "defaultOrigins =
     [''https://support.vros.cat'', ''https://bugs.vros.cat'', ''http://localhost:5173'',
      ''http://localhost:3000'']"

definition getAllowedOrigin :: "request \<Rightarrow> env \<Rightarrow> string option" where
  "getAllowedOrigin rq e =
     (let allowedOrigins =
            (case ALLOWED_ORIGINS e of Some s \<Rightarrow> split_on CHR '','' s | None \<Rightarrow> defaultOrigins)
      in case req_origin rq of
           Some origin \<Rightarrow>
             if origin \<in> set allowedOrigins then Some origin else nth_opt allowedOrigins 0
         | None \<Rightarrow> nth_opt allowedOrigins 0)"

definition json_response :: "nat \<Rightarrow> string option \<Rightarrow> resp_body \<Rightarrow> response" where
  "json_response st corsOrigin b =
     \<lparr> resp_status = st, resp_allow_origin = corsOrigin,
       resp_content_type = Some ''application/json'', resp_x_cache = None, resp_body = b \<rparr>"

definition cached_response :: "string option \<Rightarrow> string \<Rightarrow> string \<Rightarrow> response" where
  "cached_response corsOrigin xcache txt =
     \<lparr> resp_status = 200, resp_allow_origin = corsOrigin,
       resp_content_type = Some ''application/json'', resp_x_cache = Some xcache,
       resp_body = Raw txt \<rparr>"

text \<open>
  \<open>new Response(body, {status})\<close> with a body throws when the status is outside 200 to
  599 (a \<open>RangeError\<close>) or is a null-body status, 204, 205 or 304 (a \<open>TypeError\<close>); the
  handlers pass the upstream status to it unchecked. \<open>error_response\<close> is the outcome of
  returning such a response from a handler.
\<close>

definition status_accepted :: "nat \<Rightarrow> bool" where
  "status_accepted st = (200 \<le> st \<and> st \<le> 599 \<and> st \<noteq> 204 \<and> st \<noteq> 205 \<and> st \<noteq> 304)"

definition error_response :: "nat \<Rightarrow> string option \<Rightarrow> resp_body \<Rightarrow> outcome" where
  "error_response st corsOrigin b =
     (if status_accepted st then Responded (json_response st corsOrigin b) else Threw)"

definition validateAppToken :: "world \<Rightarrow> string option \<Rightarrow> env \<Rightarrow> bool \<times> env" where
  "validateAppToken w token e =
     (if \<not> truthy token then (False, e)
      else
        (case token of
           None \<Rightarrow> (False, e)
         | Some t \<Rightarrow>
             (case kv_get (now w) (TOKENS e) t of
                Some storedToken \<Rightarrow>
                  (True,
                   e\<lparr>TOKENS :=
                       kv_put (now w) (TOKENS e) t (storedToken\<lparr>tok_lastUsed := now_iso w\<rparr>) None\<rparr>)
              | None \<Rightarrow>
                  if startsWith t ''vros-'' then
                    (True,
                     e\<lparr>TOKENS :=
                         kv_put (now w) (TOKENS e) t
                           \<lparr> tok_created = now_iso w, tok_lastUsed = now_iso w,
                             tok_type = Some ''app-generated'' \<rparr> None\<rparr>)
                  else (False, e))))"

text \<open>
  \<open>parseInt\<close> on the decimal digits a string starts with; \<open>None\<close> is \<open>NaN\<close>, for which
  \<open>count >= 10\<close> is false and \<open>(count + 1).toString()\<close> is \<open>NaN\<close>.
\<close>

definition digit_val :: "char \<Rightarrow> nat" where
  "digit_val c = of_char c - 48"

definition parseInt :: "string \<Rightarrow> nat option" where
  "parseInt s =
     (let ds = takeWhile isdigit s in
      if ds = [] then None else Some (foldl (\<lambda>acc c. acc * 10 + digit_val c) 0 ds))"

definition checkRateLimit :: "world \<Rightarrow> string \<Rightarrow> env \<Rightarrow> bool \<times> env" where
  "checkRateLimit w ip e =
     (let key = ''rate:'' @ ip;
          first = (True, e\<lparr>RATE_LIMIT := kv_put (now w) (RATE_LIMIT e) key ''1'' (Some 3600)\<rparr>)
      in case kv_get (now w) (RATE_LIMIT e) key of
           None \<Rightarrow> first
         | Some currentCount \<Rightarrow>
             if currentCount = [] then first
             else
               (case parseInt currentCount of
                  Some count \<Rightarrow>
                    if count \<ge> 10 then (False, e)
                    else
                      (True,
                       e\<lparr>RATE_LIMIT :=
                           kv_put (now w) (RATE_LIMIT e) key (toString_nat (count + 1))
                             (Some 3600)\<rparr>)
                | None \<Rightarrow>
                    (True,
                     e\<lparr>RATE_LIMIT := kv_put (now w) (RATE_LIMIT e) key ''NaN'' (Some 3600)\<rparr>)))"

subsection \<open>\<open>GET /api/issues\<close>\<close>

definition github_base :: "env \<Rightarrow> string" where
  "github_base e = ''https://api.github.com/repos/'' @ GITHUB_OWNER e @ ''/'' @ GITHUB_REPO e"

definition gh_request :: "env \<Rightarrow> string \<Rightarrow> string \<Rightarrow> up_payload \<Rightarrow> up_request" where
  "gh_request e m url payload =
     \<lparr> up_method = m, up_url = url, up_authorization = ''Bearer '' @ GITHUB_TOKEN e,
       up_payload = payload \<rparr>"

definition forwarded_params :: "string list" where
  "forwarded_params =
     [''state'', ''labels'', ''sort'', ''direction'', ''since'', ''page'', ''per_page'']"

fun join_params :: "(string \<times> string) list \<Rightarrow> string" where
  "join_params [] = []"
| "join_params [(k, v)] = k @ ''='' @ v"
| "join_params ((k, v) # rest) = k @ ''='' @ v @ ''&'' @ join_params rest"

text \<open>
  The text of \<open>githubUrl\<close>: the parameters the request has, in the fixed order, each with
  its first value (percent-encoding is left out).
\<close>

definition issues_githubUrl :: "env \<Rightarrow> (string \<times> string) list \<Rightarrow> string" where
  "issues_githubUrl e params =
     (let qs = List.map_filter (\<lambda>p. map_option (\<lambda>v. (p, v)) (map_of params p)) forwarded_params
      in github_base e @ ''/issues'' @ (if qs = [] then [] else ''?'' @ join_params qs))"

text \<open>The part of \<open>handleGetIssues\<close> after a cache miss.\<close>

definition fetchIssues :: "world \<Rightarrow> env \<Rightarrow> string option \<Rightarrow> string \<Rightarrow> string \<Rightarrow> result" where
  "fetchIssues w e cors githubUrl cacheKey =
     (let call = gh_request e ''GET'' githubUrl NoPayload in
      case upstream w call of
        None \<Rightarrow> (Threw, e, [call])
      | Some response \<Rightarrow>
          if \<not> ok response then
            (error_response (up_status response) cors (GitHubErrorJson (up_status response)),
             e, [call])
          else
            (let data = up_text response in
             (Responded (cached_response cors ''MISS'' data),
              e\<lparr>CACHE := kv_put (now w) (CACHE e) cacheKey data (Some 300)\<rparr>, [call])))"

definition handleGetIssues :: "world \<Rightarrow> request \<Rightarrow> env \<Rightarrow> string option \<Rightarrow> result" where
  "handleGetIssues w rq e cors =
     (let githubUrl = issues_githubUrl e (req_searchParams rq);
          cacheKey = ''issues:'' @ githubUrl
      in case kv_get (now w) (CACHE e) cacheKey of
           Some cached \<Rightarrow>
             if cached \<noteq> [] then (Responded (cached_response cors ''HIT'' cached), e, [])
             else fetchIssues w e cors githubUrl cacheKey
         | None \<Rightarrow> fetchIssues w e cors githubUrl cacheKey)"

subsection \<open>\<open>POST /api/submit-bug\<close>\<close>

definition nl :: string where
  "nl = [CHR 0x0A]"

definition sys_field :: "json_body \<Rightarrow> (systemInfo \<Rightarrow> string option) \<Rightarrow> string option" where
  "sys_field b f = (case b_systemInfo b of None \<Rightarrow> None | Some si \<Rightarrow> f si)"

definition issueBody :: "json_body \<Rightarrow> bool \<Rightarrow> string" where
  "issueBody b isFromApp = concat
     [''## Description'', nl,
      or_else (b_description b) [], nl,
      nl,
      ''## Severity'', nl,
      or_else (b_severity b) ''medium'', nl,
      nl,
      ''## Category'', nl,
      or_else (b_category b) ''general'', nl,
      nl,
      (if truthy (b_steps b)
       then ''## Steps to Reproduce'' @ nl @ or_else (b_steps b) [] @ nl else []), nl,
      (if truthy (b_expected b)
       then ''## Expected Behavior'' @ nl @ or_else (b_expected b) [] @ nl else []), nl,
      (if truthy (b_actual b)
       then ''## Actual Behavior'' @ nl @ or_else (b_actual b) [] @ nl else []), nl,
      nl,
      ''## System Information'', nl,
      ''- **Submitted from:** '', (if isFromApp then ''VROS App'' else ''Web''), nl,
      ''- **OS:** '', or_else (sys_field b si_os) ''Unknown'', nl,
      ''- **Browser:** '', or_else (sys_field b si_browser) ''Unknown'', nl,
      ''- **App Version:** '', or_else (sys_field b si_version) ''N/A'', nl,
      ''- **VR Headset:** '', or_else (sys_field b si_headset) ''None'', nl,
      nl,
      (if truthy (b_additional b)
       then ''## Additional Information'' @ nl @ or_else (b_additional b) [] else []), nl,
      nl,
      ''---'', nl,
      ''*Submitted via VROS Bug Tracker'', (if isFromApp then '' (App)'' else '' (Web)''), ''*'']"

text \<open>The \<open>labels\<close> array that \<open>handleBugSubmit\<close> builds by its three conditional pushes.\<close>

definition bugLabels :: "json_body \<Rightarrow> bool \<Rightarrow> string list" where
  "bugLabels b isFromApp =
     [''bug'']
       @ (if truthy (b_severity b) then [''severity:'' @ or_else (b_severity b) []] else [])
       @ (if truthy (b_category b) then [''category:'' @ or_else (b_category b) []] else [])
       @ (if \<not> isFromApp then [''web-submission''] else [])"

text \<open>
  The test \<open>!body.title || !body.description\<close> is written as the negation of the
  conjunction.
\<close>

definition handleBugSubmit :: "world \<Rightarrow> request \<Rightarrow> env \<Rightarrow> string option \<Rightarrow> result" where
  "handleBugSubmit w rq e cors =
     (let ip = or_else (req_ip rq) ''unknown'';
          (admitted, e1) = checkRateLimit w ip e
      in if \<not> admitted then
           (Responded
              (json_response 429 cors (ErrorJson ''Rate limit exceeded. Please try again later.'')),
            e1, [])
         else
           (let (isFromApp, e2) = validateAppToken w (req_app_token rq) e1 in
            case req_json rq of
              None \<Rightarrow> (Threw, e2, [])
            | Some b \<Rightarrow>
                if \<not> (truthy (b_title b) \<and> truthy (b_description b)) then
                  (Responded
                     (json_response 400 cors
                        (ErrorJson ''Missing required fields: title, description'')),
                   e2, [])
                else
                  (let call =
                         gh_request e2 ''POST'' (github_base e2 @ ''/issues'')
                           (CreateIssue (or_else (b_title b) []) (issueBody b isFromApp)
                              (bugLabels b isFromApp))
                   in case upstream w call of
                        None \<Rightarrow> (Threw, e2, [call])
                      | Some githubResponse \<Rightarrow>
                          if \<not> ok githubResponse then
                            (error_response (up_status githubResponse) cors
                               (CreateFailedJson (up_text githubResponse)),
                             e2, [call])
                          else
                            (Responded
                               (json_response 200 cors
                                  (SubmittedJson (up_number githubResponse)
                                     (up_html_url githubResponse))),
                             e2, [call]))))"

subsection \<open>\<open>PUT /api/issues/:number/labels\<close>\<close>

definition handleUpdateLabels ::
  "world \<Rightarrow> request \<Rightarrow> env \<Rightarrow> string option \<Rightarrow> string \<Rightarrow> result" where
  "handleUpdateLabels w rq e cors issueNumber =
     (case req_json rq of
        None \<Rightarrow> (Threw, e, [])
      | Some b \<Rightarrow>
          (case b_labels b of
             None \<Rightarrow> (Responded (json_response 400 cors (ErrorJson ''Labels array required'')), e, [])
           | Some ls \<Rightarrow>
               (let call =
                      gh_request e ''PUT''
                        (github_base e @ ''/issues/'' @ issueNumber @ ''/labels'')
                        (ReplaceLabels ls)
                in case upstream w call of
                     None \<Rightarrow> (Threw, e, [call])
                   | Some githubResponse \<Rightarrow>
                       if \<not> ok githubResponse then
                         (error_response (up_status githubResponse) cors
                            (ErrorJson ''Failed to update labels''),
                          e, [call])
                       else
                         (Responded
                            (json_response 200 cors (ReparsedJson (up_text githubResponse))),
                          e, [call]))))"

subsection \<open>Static and aggregated reads\<close>

text \<open>The texts of \<open>JSON.stringify(patchNotes)\<close> and \<open>JSON.stringify(versionInfo)\<close>.\<close>

definition patchNotes_text :: string where
  \<open>patchNotes_text = concat
     [''{"versions":[{"version":"0.1.0","date":"2025-01-13","title":"Initial Release",'',
      ''"type":"major","sections":{"features":["Virtual Reality Overlay System foundation",'',
      ''"Desktop control panel with system tray","VR Dashboard with process management",'',
      ''"Bug tracking and support system","Dark theme optimized for OLED displays"],'',
      ''"improvements":[],"fixes":[]}}],"latest":"0.1.0"}'']\<close>

definition versionInfo_text :: string where
  \<open>versionInfo_text = concat
     [''{"version":"0.1.0","date":"2025-01-13","updateAvailable":false,'',
      ''"downloadUrl":"https://github.com/catnet/vros/releases/latest",'',
      ''"minimumVersion":"0.1.0","criticalUpdate":false,"announcement":null}'']\<close>

text \<open>
  \<open>handlePatchNotes\<close> and \<open>handleLatestVersion\<close> differ in the key, the text and the
  time to live only.
\<close>

definition handleStatic ::
  "world \<Rightarrow> env \<Rightarrow> string option \<Rightarrow> string \<Rightarrow> string \<Rightarrow> nat \<Rightarrow> result" where
  "handleStatic w e cors key txt ttl =
     (let miss =
            (Responded (cached_response cors ''MISS'' txt),
             e\<lparr>CACHE := kv_put (now w) (CACHE e) key txt (Some ttl)\<rparr>, [])
      in case kv_get (now w) (CACHE e) key of
           Some cached \<Rightarrow>
             if cached \<noteq> [] then (Responded (cached_response cors ''HIT'' cached), e, [])
             else miss
         | None \<Rightarrow> miss)"

definition handlePatchNotes :: "world \<Rightarrow> request \<Rightarrow> env \<Rightarrow> string option \<Rightarrow> result" where
  "handlePatchNotes w rq e cors = handleStatic w e cors ''patch-notes'' patchNotes_text 3600"

definition handleLatestVersion :: "world \<Rightarrow> request \<Rightarrow> env \<Rightarrow> string option \<Rightarrow> result" where
  "handleLatestVersion w rq e cors =
     handleStatic w e cors ''latest-version'' versionInfo_text 1800"

text \<open>
  \<open>handleStats\<close>: the three upstream calls are issued together; it throws when one of
  them rejects, and caches what it composed without looking at the upstream statuses.
\<close>

definition fetchStats :: "world \<Rightarrow> env \<Rightarrow> string option \<Rightarrow> result" where
  "fetchStats w e cors =
     (let c1 = gh_request e ''GET'' (github_base e) NoPayload;
          c2 = gh_request e ''GET'' (github_base e @ ''/issues?state=open&per_page=1'') NoPayload;
          c3 = gh_request e ''GET'' (github_base e @ ''/issues?state=closed&per_page=100'')
                 NoPayload
      in case (upstream w c1, upstream w c2, upstream w c3) of
           (Some repoResponse, Some openIssuesResponse, Some closedIssuesResponse) \<Rightarrow>
             (let data = stats_text w repoResponse openIssuesResponse closedIssuesResponse in
              (Responded (cached_response cors ''MISS'' data),
               e\<lparr>CACHE := kv_put (now w) (CACHE e) ''stats'' data (Some 1800)\<rparr>, [c1, c2, c3]))
         | _ \<Rightarrow> (Threw, e, [c1, c2, c3]))"

definition handleStats :: "world \<Rightarrow> request \<Rightarrow> env \<Rightarrow> string option \<Rightarrow> result" where
  "handleStats w rq e cors =
     (case kv_get (now w) (CACHE e) ''stats'' of
        Some cached \<Rightarrow>
          if cached \<noteq> [] then (Responded (cached_response cors ''HIT'' cached), e, [])
          else fetchStats w e cors
      | None \<Rightarrow> fetchStats w e cors)"

subsection \<open>The router: \<open>fetch\<close>\<close>

text \<open>
  The match of \<open>/^\/api\/issues\/(\d+)\/labels$/\<close> on the path: the captured digits, or
  \<open>None\<close> when the path does not match.
\<close>

definition match_labels_route :: "string \<Rightarrow> string option" where
  "match_labels_route p =
     (if startsWith p ''/api/issues/'' then
        (let rest = drop (length ''/api/issues/'') p;
             ds = takeWhile isdigit rest
         in if ds \<noteq> [] \<and> dropWhile isdigit rest = ''/labels'' then Some ds else None)
      else None)"

definition not_found :: "string option \<Rightarrow> response" where
  "not_found cors = json_response 404 cors (ErrorJson ''Not found'')"

text \<open>
  The routes are tried in the order of the source. Each handler is an \<open>async\<close> function
  whose promise is returned without \<open>await\<close>, so what a handler throws leaves \<open>fetch\<close> as
  it is (\<open>Threw\<close>) and the \<open>catch\<close> block is not modelled.
\<close>

definition fetch :: "world \<Rightarrow> request \<Rightarrow> env \<Rightarrow> result" where
  "fetch w rq e =
     (let corsHeaders = getAllowedOrigin rq e;
          pathname = req_pathname rq;
          m = req_method rq
      in if m = ''OPTIONS'' then
           (Responded
              \<lparr> resp_status = 204, resp_allow_origin = corsHeaders, resp_content_type = None,
                resp_x_cache = None, resp_body = NoBody \<rparr>,
            e, [])
         else if pathname = ''/api/issues'' \<and> m = ''GET'' then handleGetIssues w rq e corsHeaders
         else if pathname = ''/api/submit-bug'' \<and> m = ''POST'' then
           handleBugSubmit w rq e corsHeaders
         else
           (case (if m = ''PUT'' then match_labels_route pathname else None) of
              Some issueNumber \<Rightarrow> handleUpdateLabels w rq e corsHeaders issueNumber
            | None \<Rightarrow>
                if pathname = ''/api/patch-notes'' \<and> m = ''GET'' then
                  handlePatchNotes w rq e corsHeaders
                else if pathname = ''/api/latest-version'' \<and> m = ''GET'' then
                  handleLatestVersion w rq e corsHeaders
                else if pathname = ''/api/stats'' \<and> m = ''GET'' then
                  handleStats w rq e corsHeaders
                else if pathname = ''/api/health'' then
                  (Responded (json_response 200 corsHeaders (HealthJson (now_iso w))), e, [])
                else (Responded (not_found corsHeaders), e, [])))"

subsection \<open>Runs and observations\<close>


text \<open>The labels an upstream call carries.\<close>

fun payload_labels :: "up_payload \<Rightarrow> string list" where
  "payload_labels NoPayload = []"
| "payload_labels (CreateIssue t b ls) = ls"
| "payload_labels (ReplaceLabels ls) = ls"

section \<open>Concrete inputs\<close>

definition example_issue :: "string \<Rightarrow> string list \<Rightarrow> issue" where
  "example_issue st names =
     \<lparr> number = 42, title = ''Overlay flickers'', body = None,
       html_url = ''https://github.com/catnet-systems/vros-bugs/issues/42'', state = st,
       labels = map (\<lambda>n. \<lparr>name = n, color = ''ededed''\<rparr>) names, assignee = None,
       created_at = ''2025-01-15T10:00:00Z'', updated_at = ''2025-01-15T10:00:00Z'',
       comments = 0 \<rparr>"

definition example_env :: env where
  "example_env =
     \<lparr> TOKENS = Map.empty, RATE_LIMIT = Map.empty, CACHE = Map.empty,
       GITHUB_OWNER = ''catnet-systems'', GITHUB_REPO = ''vros-bugs'', GITHUB_TOKEN = ''secret'',
       ALLOWED_ORIGINS = None \<rparr>"

definition world_at :: "nat \<Rightarrow> (up_request \<Rightarrow> up_response option) \<Rightarrow> world" where
  "world_at t u =
     \<lparr> now = t, now_iso = ''2025-01-15T10:00:00.000Z'', upstream = u,
       stats_text = (\<lambda>_ _ _. ''{}'') \<rparr>"

definition up_answer :: "nat \<Rightarrow> string \<Rightarrow> int option \<Rightarrow> up_response" where
  "up_answer st txt n =
     \<lparr> up_status = st, up_text = txt, up_number = n,
       up_html_url =
         map_option
           (\<lambda>i. ''https://github.com/catnet-systems/vros-bugs/issues/'' @ toString_int i) n,
       up_link = None \<rparr>"

text \<open>
  An upstream that creates issue 101 on \<open>POST\<close>, accepts a \<open>PUT\<close>, and answers every
  \<open>GET\<close> with the given listing; and one that is down.
\<close>

definition upstream_with :: "string \<Rightarrow> up_request \<Rightarrow> up_response option" where
  "upstream_with listing c =
     (if up_method c = ''POST'' then Some (up_answer 201 ''{}'' (Some 101))
      else if up_method c = ''PUT'' then Some (up_answer 200 ''[]'' None)
      else Some (up_answer 200 listing None))"

definition upstream_down :: "up_request \<Rightarrow> up_response option" where
  "upstream_down c = Some (up_answer 503 ''Service Unavailable'' None)"

text \<open>An upstream that answers every call with 304 and no text.\<close>

definition upstream_not_modified :: "up_request \<Rightarrow> up_response option" where
  "upstream_not_modified c = Some (up_answer 304 [] None)"

definition crash_body :: json_body where
  "crash_body =
     \<lparr> b_title = Some ''Crash on launch'', b_description = Some ''App crashes immediately'',
       b_severity = None, b_category = None, b_steps = None, b_expected = None,
       b_actual = None, b_systemInfo = None, b_additional = None, b_labels = None \<rparr>"

definition crash_request :: request where
  "crash_request =
     \<lparr> req_method = ''POST'', req_pathname = ''/api/submit-bug'', req_searchParams = [],
       req_origin = Some ''https://support.vros.cat'', req_ip = Some ''203.0.113.7'',
       req_app_token = None, req_json = Some crash_body \<rparr>"

text \<open>The same report with the severity chosen.\<close>

definition high_body :: json_body where
  "high_body = crash_body\<lparr>b_severity := Some ''high''\<rparr>"

definition high_request :: request where
  "high_request = crash_request\<lparr>req_json := Some high_body\<rparr>"

definition list_request :: request where
  "list_request =
     \<lparr> req_method = ''GET'', req_pathname = ''/api/issues'',
       req_searchParams = [(''state'', ''open'')],
       req_origin = Some ''https://bugs.vros.cat'', req_ip = Some ''203.0.113.7'',
       req_app_token = None, req_json = None \<rparr>"

definition labels_request :: request where
  "labels_request =
     \<lparr> req_method = ''PUT'', req_pathname = ''/api/issues/42/labels'', req_searchParams = [],
       req_origin = Some ''https://bugs.vros.cat'', req_ip = Some ''203.0.113.7'',
       req_app_token = None,
       req_json =
         Some (crash_body\<lparr>b_title := None, b_description := None,
                          b_labels := Some [''bug'', ''status:testing'']\<rparr>) \<rparr>"

text \<open>An environment in which the address has used up its ten requests.\<close>

definition saturated_env :: env where
  "saturated_env =
     example_env\<lparr>RATE_LIMIT := [''rate:203.0.113.7'' \<mapsto> (''10'', Some 3600)]\<rparr>"

text \<open>
  The environment after a first listing at time 0 (upstream answers \<open>[]\<close>), and after a
  bug submitted at time 10 on top of it.
\<close>

definition listed_env :: env where
  "listed_env = fst (snd (fetch (world_at 0 (upstream_with ''[]'')) list_request example_env))"

definition submitted_env :: env where
  "submitted_env =
     fst (snd (fetch (world_at 10 (upstream_with ''[]'')) crash_request listed_env))"

section \<open>Properties of the tracker client\<close>

subsection \<open>The label delta of \<open>updateIssueLabels\<close>\<close>

lemma target_status_label:
  "t \<in> set targetColumns \<Longrightarrow> ''status:'' @ t \<in> set statusLabels"
  by (auto simp: targetColumns_def statusMap_def statusLabels_def)

text \<open>
  C1, as stated, fails: the method removes the five fixed status labels only, so a label
  such as \<open>status:blocked\<close> stays and the result holds two labels that start with
  \<open>status:\<close>.
\<close>

theorem newLabels_keeps_foreign_status:
  "\<not> length (filter (\<lambda>n. startsWith n ''status:'')
        (newLabels (labels (example_issue ''open'' [''status:blocked''])) ''todo'')) \<le> 1"
  by (simp add: example_issue_def newLabels_def statusLabels_def startsWith_def)

text \<open>
  C1, amended: for a target column of the board and an input without duplicate names, the
  result holds exactly one label of the fixed status family, \<open>status:<target>\<close>; its
  labels outside that family are those of the input, in the same order; and it has no
  duplicates.
\<close>

theorem newLabels_status_family:
  assumes "newStatus \<in> set targetColumns" and "distinct (map name ls)"
  shows "filter (\<lambda>n. n \<in> set statusLabels) (newLabels ls newStatus) = [''status:'' @ newStatus]
       \<and> filter (\<lambda>n. n \<notin> set statusLabels) (newLabels ls newStatus)
           = filter (\<lambda>n. n \<notin> set statusLabels) (map name ls)
       \<and> distinct (newLabels ls newStatus)"
proof -
  have m: "''status:'' @ newStatus \<in> set statusLabels"
    using assms(1) by (rule target_status_label)
  have a: "filter (\<lambda>n. n \<in> set statusLabels) (newLabels ls newStatus) = [''status:'' @ newStatus]"
    using m by (simp add: newLabels_def)
  have b: "filter (\<lambda>n. n \<notin> set statusLabels) (newLabels ls newStatus)
           = filter (\<lambda>n. n \<notin> set statusLabels) (map name ls)"
    using m by (simp add: newLabels_def)
  have c: "distinct (newLabels ls newStatus)"
    using m assms(2) by (auto simp: newLabels_def)
  from a b c show ?thesis by blast
qed

theorem newLabels_status_family_witness:
  "filter (\<lambda>n. n \<in> set statusLabels)
     (newLabels (labels (example_issue ''open'' [''bug'', ''status:todo'', ''severity:high'']))
        ''testing'') = [''status:testing'']
   \<and> filter (\<lambda>n. n \<notin> set statusLabels)
     (newLabels (labels (example_issue ''open'' [''bug'', ''status:todo'', ''severity:high'']))
        ''testing'') = [''bug'', ''severity:high'']
   \<and> distinct
     (newLabels (labels (example_issue ''open'' [''bug'', ''status:todo'', ''severity:high'']))
        ''testing'')"
proof -
  let ?ls = "labels (example_issue ''open'' [''bug'', ''status:todo'', ''severity:high''])"
  have h1: "''testing'' \<in> set targetColumns"
    by (simp add: targetColumns_def statusMap_def)
  have h2: "distinct (map name ?ls)"
    by (simp add: example_issue_def)
  have n: "filter (\<lambda>n. n \<notin> set statusLabels) (map name ?ls) = [''bug'', ''severity:high'']"
    by (simp add: example_issue_def statusLabels_def)
  from newLabels_status_family[OF h1 h2] show ?thesis
    by (simp add: n)
qed

text \<open>
  C7: applying the label delta with the same target to the labels that a first
  application produced gives the same label set; for a target column of the board it
  gives the same list.
\<close>

theorem newLabels_idempotent:
  "(set (map name ls') = set (newLabels ls newStatus) \<longrightarrow>
      set (newLabels ls' newStatus) = set (newLabels ls newStatus))
   \<and> (newStatus \<in> set targetColumns \<and> map name ls' = newLabels ls newStatus \<longrightarrow>
      newLabels ls' newStatus = newLabels ls newStatus)"
proof (intro conjI impI)
  assume "set (map name ls') = set (newLabels ls newStatus)"
  then have "set (map name ls') = set (map name ls) - set statusLabels \<union> {''status:'' @ newStatus}"
    by (auto simp: newLabels_def)
  then show "set (newLabels ls' newStatus) = set (newLabels ls newStatus)"
    by (auto simp: newLabels_def)
next
  assume a: "newStatus \<in> set targetColumns \<and> map name ls' = newLabels ls newStatus"
  then have "newStatus \<in> set targetColumns" by blast
  then have m: "''status:'' @ newStatus \<in> set statusLabels"
    by (rule target_status_label)
  have "newLabels ls' newStatus
      = filter (\<lambda>n. n \<notin> set statusLabels) (newLabels ls newStatus) @ [''status:'' @ newStatus]"
    using a by (simp add: newLabels_def[of ls'])
  also have "\<dots> = newLabels ls newStatus"
    using m by (simp add: newLabels_def)
  finally show "newLabels ls' newStatus = newLabels ls newStatus" .
qed

theorem newLabels_idempotent_witness:
  "newLabels (labels (example_issue ''open'' [''bug'', ''status:testing''])) ''testing''
     = newLabels (labels (example_issue ''open'' [''bug'', ''status:todo''])) ''testing''
   \<and> newLabels (labels (example_issue ''open'' [''bug'', ''status:todo''])) ''testing''
     = [''bug'', ''status:testing'']"
proof -
  let ?ls = "labels (example_issue ''open'' [''bug'', ''status:todo''])"
  let ?ls' = "labels (example_issue ''open'' [''bug'', ''status:testing''])"
  have r: "newLabels ?ls ''testing'' = [''bug'', ''status:testing'']"
    by (simp add: newLabels_def example_issue_def statusLabels_def)
  have h1: "''testing'' \<in> set targetColumns"
    by (simp add: targetColumns_def statusMap_def)
  have h2: "map name ?ls' = newLabels ?ls ''testing''"
    unfolding r by (simp add: example_issue_def)
  from newLabels_idempotent[of ?ls' ?ls "''testing''"] h1 h2 r show ?thesis
    by simp
qed

subsection \<open>\<open>categorizeIssues\<close>\<close>

lemma categorize_column_key: "categorize_column i \<in> set columnKeys"
  by (simp add: categorize_column_def columnKeys_def Let_def)

lemma categorize_loop_columns:
  "\<exists>cols'. categorize_loop issues cols = Some cols' \<and>
     col_backlog cols' = col_backlog cols
       @ map parseIssue (filter (\<lambda>i. categorize_column i = ''backlog'') issues) \<and>
     col_todo cols' = col_todo cols
       @ map parseIssue (filter (\<lambda>i. categorize_column i = ''todo'') issues) \<and>
     col_inProgress cols' = col_inProgress cols
       @ map parseIssue (filter (\<lambda>i. categorize_column i = ''inProgress'') issues) \<and>
     col_testing cols' = col_testing cols
       @ map parseIssue (filter (\<lambda>i. categorize_column i = ''testing'') issues) \<and>
     col_done cols' = col_done cols
       @ map parseIssue (filter (\<lambda>i. categorize_column i = ''done'') issues)"
proof (induction issues arbitrary: cols)
  case Nil
  then show ?case by simp
next
  case (Cons i rest)
  have "categorize_column i \<in> set columnKeys"
    by (rule categorize_column_key)
  then consider "categorize_column i = ''backlog''" | "categorize_column i = ''todo''"
    | "categorize_column i = ''inProgress''" | "categorize_column i = ''testing''"
    | "categorize_column i = ''done''"
    by (auto simp: columnKeys_def)
  then show ?case
  proof cases
    case 1
    then show ?thesis
      using Cons.IH[of "cols\<lparr>col_backlog := col_backlog cols @ [parseIssue i]\<rparr>"]
      by (simp add: column_push_def)
  next
    case 2
    then show ?thesis
      using Cons.IH[of "cols\<lparr>col_todo := col_todo cols @ [parseIssue i]\<rparr>"]
      by (simp add: column_push_def)
  next
    case 3
    then show ?thesis
      using Cons.IH[of "cols\<lparr>col_inProgress := col_inProgress cols @ [parseIssue i]\<rparr>"]
      by (simp add: column_push_def)
  next
    case 4
    then show ?thesis
      using Cons.IH[of "cols\<lparr>col_testing := col_testing cols @ [parseIssue i]\<rparr>"]
      by (simp add: column_push_def)
  next
    case 5
    then show ?thesis
      using Cons.IH[of "cols\<lparr>col_done := col_done cols @ [parseIssue i]\<rparr>"]
      by (simp add: column_push_def)
  qed
qed

lemma open_single_status:
  assumes "state i \<noteq> ''closed''" and "(k, c) \<in> set statusMap"
    and "set (filter (\<lambda>n. n \<in> set statusLabels) (map name (labels i))) = {''status:'' @ c}"
  shows "categorize_column i = k"
proof -
  have *: "(n \<in> set (map name (labels i))) = (n = ''status:'' @ c)" if "n \<in> set statusLabels" for n
  proof -
    have "n \<in> set (filter (\<lambda>n. n \<in> set statusLabels) (map name (labels i)))
            \<longleftrightarrow> n \<in> set (map name (labels i))"
      using that by simp
    then show ?thesis unfolding assms(3) by simp
  qed
  have d: "(''status:done'' \<in> set (map name (labels i))) = (''status:done'' = ''status:'' @ c)"
    by (rule *) (simp add: statusLabels_def)
  have t: "(''status:testing'' \<in> set (map name (labels i))) = (''status:testing'' = ''status:'' @ c)"
    by (rule *) (simp add: statusLabels_def)
  have p: "(''status:in-progress'' \<in> set (map name (labels i)))
             = (''status:in-progress'' = ''status:'' @ c)"
    by (rule *) (simp add: statusLabels_def)
  have o: "(''status:todo'' \<in> set (map name (labels i))) = (''status:todo'' = ''status:'' @ c)"
    by (rule *) (simp add: statusLabels_def)
  have col: "categorize_column i =
      (if ''status:done'' = ''status:'' @ c then ''done''
       else if ''status:testing'' = ''status:'' @ c then ''testing''
       else if ''status:in-progress'' = ''status:'' @ c then ''inProgress''
       else if ''status:todo'' = ''status:'' @ c then ''todo'' else ''backlog'')"
    unfolding categorize_column_def Let_def d t p o using assms(1) by simp
  from assms(2) have "(k, c) \<in> {(''backlog'', ''backlog''), (''todo'', ''todo''),
      (''inProgress'', ''in-progress''), (''testing'', ''testing''), (''done'', ''done'')}"
    by (simp add: statusMap_def)
  then show ?thesis unfolding col by auto
qed

text \<open>
  C2, as stated, fails: a closed issue goes to \<open>done\<close> whatever its labels say, where the
  sentence of the specification gives the column of its \<open>status:testing\<close> label.
\<close>

theorem closed_issue_with_status_is_done:
  "categorize_column (example_issue ''closed'' [''status:testing'']) = ''done''
   \<and> spec_toColumn (example_issue ''closed'' [''status:testing'']) = ''testing''"
  by (simp add: example_issue_def categorize_column_def spec_toColumn_def statusLabels_def)

text \<open>
  C2, amended: the categorization is total: every issue gets one of the five keys of
  \<open>columns\<close>, \<open>categorizeIssues\<close> never fails, and each column holds, in input order, the
  cards of exactly the issues with that key. A closed issue is in \<open>done\<close> whatever its
  labels; an open issue with no recognized status label is in \<open>backlog\<close>; an open issue
  whose recognized status labels are one \<open>status:<name>\<close> is in the column of that name.
\<close>

theorem categorizeIssues_columns:
  "categorize_column i \<in> set columnKeys
   \<and> (\<exists>cols. categorizeIssues issues = Some cols
        \<and> col_backlog cols = map parseIssue (filter (\<lambda>i. categorize_column i = ''backlog'') issues)
        \<and> col_todo cols = map parseIssue (filter (\<lambda>i. categorize_column i = ''todo'') issues)
        \<and> col_inProgress cols
            = map parseIssue (filter (\<lambda>i. categorize_column i = ''inProgress'') issues)
        \<and> col_testing cols = map parseIssue (filter (\<lambda>i. categorize_column i = ''testing'') issues)
        \<and> col_done cols = map parseIssue (filter (\<lambda>i. categorize_column i = ''done'') issues))
   \<and> (state i = ''closed'' \<longrightarrow> categorize_column i = ''done'')
   \<and> (state i \<noteq> ''closed'' \<and> filter (\<lambda>n. n \<in> set statusLabels) (map name (labels i)) = []
        \<longrightarrow> categorize_column i = ''backlog'')
   \<and> (state i \<noteq> ''closed'' \<and> (k, c) \<in> set statusMap
        \<and> set (filter (\<lambda>n. n \<in> set statusLabels) (map name (labels i))) = {''status:'' @ c}
        \<longrightarrow> categorize_column i = k)"
proof (intro conjI impI)
  show "categorize_column i \<in> set columnKeys"
    by (rule categorize_column_key)
  show "\<exists>cols. categorizeIssues issues = Some cols
        \<and> col_backlog cols = map parseIssue (filter (\<lambda>i. categorize_column i = ''backlog'') issues)
        \<and> col_todo cols = map parseIssue (filter (\<lambda>i. categorize_column i = ''todo'') issues)
        \<and> col_inProgress cols
            = map parseIssue (filter (\<lambda>i. categorize_column i = ''inProgress'') issues)
        \<and> col_testing cols = map parseIssue (filter (\<lambda>i. categorize_column i = ''testing'') issues)
        \<and> col_done cols = map parseIssue (filter (\<lambda>i. categorize_column i = ''done'') issues)"
    using categorize_loop_columns[of issues empty_columns]
    by (simp add: categorizeIssues_def empty_columns_def)
  show "categorize_column i = ''done''" if "state i = ''closed''"
    using that by (simp add: categorize_column_def)
  show "categorize_column i = ''backlog''"
    if "state i \<noteq> ''closed'' \<and> filter (\<lambda>n. n \<in> set statusLabels) (map name (labels i)) = []"
    using that by (auto simp: categorize_column_def statusLabels_def filter_empty_conv Let_def)
  show "categorize_column i = k"
    if "state i \<noteq> ''closed'' \<and> (k, c) \<in> set statusMap
        \<and> set (filter (\<lambda>n. n \<in> set statusLabels) (map name (labels i))) = {''status:'' @ c}"
    using that open_single_status[of i k c] by blast
qed

theorem categorizeIssues_columns_witness:
  "categorize_column (example_issue ''closed'' [''bug'']) = ''done''
   \<and> categorize_column (example_issue ''open'' [''bug'']) = ''backlog''
   \<and> categorize_column (example_issue ''open'' [''bug'', ''status:in-progress'']) = ''inProgress''
   \<and> (\<exists>cols. categorizeIssues [example_issue ''closed'' [''bug''], example_issue ''open'' [''bug'']]
                = Some cols
        \<and> col_backlog cols = [parseIssue (example_issue ''open'' [''bug''])]
        \<and> col_done cols = [parseIssue (example_issue ''closed'' [''bug''])])"
proof -
  let ?closed = "example_issue ''closed'' [''bug'']"
  let ?plain = "example_issue ''open'' [''bug'']"
  let ?moving = "example_issue ''open'' [''bug'', ''status:in-progress'']"
  have c: "state ?closed = ''closed''"
    by (simp add: example_issue_def)
  have p: "state ?plain \<noteq> ''closed'' \<and>
           filter (\<lambda>n. n \<in> set statusLabels) (map name (labels ?plain)) = []"
    by (simp add: example_issue_def statusLabels_def)
  have m: "state ?moving \<noteq> ''closed'' \<and> (''inProgress'', ''in-progress'') \<in> set statusMap \<and>
           set (filter (\<lambda>n. n \<in> set statusLabels) (map name (labels ?moving)))
             = {''status:'' @ ''in-progress''}"
    by (simp add: example_issue_def statusLabels_def statusMap_def)
  have 1: "categorize_column ?closed = ''done''"
    using categorizeIssues_columns[of ?closed "[?closed, ?plain]"] c by blast
  have 2: "categorize_column ?plain = ''backlog''"
    using categorizeIssues_columns[of ?plain "[]"] p by blast
  have 3: "categorize_column ?moving = ''inProgress''"
    using categorizeIssues_columns[of ?moving "[]" "''inProgress''" "''in-progress''"] m by blast
  have 4: "\<exists>cols. categorizeIssues [?closed, ?plain] = Some cols
        \<and> col_backlog cols = [parseIssue ?plain] \<and> col_done cols = [parseIssue ?closed]"
  proof -
    from categorizeIssues_columns[of ?closed "[?closed, ?plain]" "''done''" "''done''"]
    obtain cols where cols: "categorizeIssues [?closed, ?plain] = Some cols"
      "col_backlog cols
         = map parseIssue (filter (\<lambda>i. categorize_column i = ''backlog'') [?closed, ?plain])"
      "col_done cols
         = map parseIssue (filter (\<lambda>i. categorize_column i = ''done'') [?closed, ?plain])"
      by blast
    show ?thesis
      using cols by (simp add: 1 2)
  qed
  from 1 2 3 4 show ?thesis by blast
qed

subsection \<open>The winner among several labels of one family\<close>

lemma split_on_first: "split_on c s = takeWhile (\<lambda>x. x \<noteq> c) s # tl (split_on c s)"
  by (induction s) (auto split: list.splits)

lemma split_on_after_prefix:
  "c \<notin> set p \<Longrightarrow> split_on c (p @ c # r) = p # split_on c r"
  by (induction p) (auto split: list.splits)

lemma startsWith_decompose: "startsWith s p \<Longrightarrow> s = p @ drop (length p) s"
  unfolding startsWith_def by (metis append_take_drop_id)

lemma family_value:
  assumes "startsWith s (fam @ '':'')" and "CHR '':'' \<notin> set fam"
  shows "nth_opt (split_on CHR '':'' s) 1
           = Some (takeWhile (\<lambda>x. x \<noteq> CHR '':'') (drop (length (fam @ '':'')) s))"
proof -
  let ?r = "drop (length (fam @ '':'')) s"
  have s: "s = fam @ CHR '':'' # ?r"
    using startsWith_decompose[OF assms(1)] by simp
  have "split_on CHR '':'' s = fam # split_on CHR '':'' ?r"
    using split_on_after_prefix[OF assms(2), of ?r] s by simp
  also have "\<dots> = fam # takeWhile (\<lambda>x. x \<noteq> CHR '':'') ?r # tl (split_on CHR '':'' ?r)"
    using split_on_first[of "CHR '':''" ?r] by simp
  finally show ?thesis by (simp add: nth_opt_def)
qed

lemma find_first_match:
  "\<forall>x\<in>set pre. \<not> P x \<Longrightarrow> P l \<Longrightarrow> find P (pre @ l # post) = Some l"
  by (induction pre) auto

lemma getSeverity_first:
  assumes "\<forall>x\<in>set pre. \<not> startsWith (name x) ''severity:''"
    and "startsWith (name l) ''severity:''"
  shows "getSeverity (pre @ l # post)
           = Some (takeWhile (\<lambda>x. x \<noteq> CHR '':'') (drop (length ''severity:'') (name l)))"
proof -
  have f: "find (\<lambda>l. startsWith (name l) ''severity:'') (pre @ l # post) = Some l"
    using assms by (intro find_first_match) auto
  have "startsWith (name l) (''severity'' @ '':'')"
    using assms(2) by simp
  from family_value[OF this] f show ?thesis
    by (simp add: getSeverity_def)
qed

lemma getCategory_first:
  assumes "\<forall>x\<in>set pre. \<not> startsWith (name x) ''category:''"
    and "startsWith (name l) ''category:''"
  shows "getCategory (pre @ l # post)
           = Some (takeWhile (\<lambda>x. x \<noteq> CHR '':'') (drop (length ''category:'') (name l)))"
proof -
  have f: "find (\<lambda>l. startsWith (name l) ''category:'') (pre @ l # post) = Some l"
    using assms by (intro find_first_match) auto
  have "startsWith (name l) (''category'' @ '':'')"
    using assms(2) by simp
  from family_value[OF this] f show ?thesis
    by (simp add: getCategory_def)
qed

text \<open>
  C8, as stated, fails for the status family: an open issue labelled \<open>status:todo\<close> then
  \<open>status:testing\<close> is put in \<open>testing\<close>, while the first recognized status label in
  label order is \<open>status:todo\<close>.
\<close>

theorem status_winner_not_first_match:
  "categorize_column (example_issue ''open'' [''status:todo'', ''status:testing'']) = ''testing''
   \<and> find (\<lambda>n. n \<in> set statusLabels)
        (map name (labels (example_issue ''open'' [''status:todo'', ''status:testing''])))
       = Some ''status:todo''"
  by (simp add: example_issue_def categorize_column_def statusLabels_def)

text \<open>
  C8, amended: for severity and for category the winner is the first label of the family
  in label order, and the value shown is the text between its first and second colon.
  For the column the winner does not depend on label order at all: issues with the same
  state and the same set of label names get the same column, chosen by the fixed priority
  done (or closed), testing, in-progress, todo, backlog: a closed issue or one with
  \<open>status:done\<close> is in \<open>done\<close>; else one with \<open>status:testing\<close> is in \<open>testing\<close>;
  else one with \<open>status:in-progress\<close> is in \<open>inProgress\<close>; else one with
  \<open>status:todo\<close> is in \<open>todo\<close>; every other issue is in \<open>backlog\<close>.
\<close>

theorem mapper_family_winner:
  "((\<forall>x\<in>set pre. \<not> startsWith (name x) ''severity:'') \<and> startsWith (name l) ''severity:'' \<longrightarrow>
      getSeverity (pre @ l # post)
        = Some (takeWhile (\<lambda>x. x \<noteq> CHR '':'') (drop (length ''severity:'') (name l))))
   \<and> ((\<forall>x\<in>set pre. \<not> startsWith (name x) ''category:'') \<and> startsWith (name l) ''category:'' \<longrightarrow>
      getCategory (pre @ l # post)
        = Some (takeWhile (\<lambda>x. x \<noteq> CHR '':'') (drop (length ''category:'') (name l))))
   \<and> (set (map name (labels i)) = set (map name (labels j)) \<and> state i = state j \<longrightarrow>
      categorize_column i = categorize_column j)
   \<and> (state i = ''closed'' \<or> ''status:done'' \<in> set (map name (labels i)) \<longrightarrow>
      categorize_column i = ''done'')
   \<and> (state i \<noteq> ''closed'' \<and> ''status:done'' \<notin> set (map name (labels i))
        \<and> ''status:testing'' \<in> set (map name (labels i)) \<longrightarrow>
      categorize_column i = ''testing'')
   \<and> (state i \<noteq> ''closed'' \<and> ''status:done'' \<notin> set (map name (labels i))
        \<and> ''status:testing'' \<notin> set (map name (labels i))
        \<and> ''status:in-progress'' \<in> set (map name (labels i)) \<longrightarrow>
      categorize_column i = ''inProgress'')
   \<and> (state i \<noteq> ''closed'' \<and> ''status:done'' \<notin> set (map name (labels i))
        \<and> ''status:testing'' \<notin> set (map name (labels i))
        \<and> ''status:in-progress'' \<notin> set (map name (labels i))
        \<and> ''status:todo'' \<in> set (map name (labels i)) \<longrightarrow>
      categorize_column i = ''todo'')
   \<and> (state i \<noteq> ''closed'' \<and> ''status:done'' \<notin> set (map name (labels i))
        \<and> ''status:testing'' \<notin> set (map name (labels i))
        \<and> ''status:in-progress'' \<notin> set (map name (labels i))
        \<and> ''status:todo'' \<notin> set (map name (labels i)) \<longrightarrow>
      categorize_column i = ''backlog'')"
proof (intro conjI impI)
  show "categorize_column i = ''done''"
    if "state i = ''closed'' \<or> ''status:done'' \<in> set (map name (labels i))"
    using that unfolding categorize_column_def Let_def by auto
  show "categorize_column i = ''todo''"
    if "state i \<noteq> ''closed'' \<and> ''status:done'' \<notin> set (map name (labels i))
        \<and> ''status:testing'' \<notin> set (map name (labels i))
        \<and> ''status:in-progress'' \<notin> set (map name (labels i))
        \<and> ''status:todo'' \<in> set (map name (labels i))"
    using that unfolding categorize_column_def Let_def by simp
  show "categorize_column i = ''backlog''"
    if "state i \<noteq> ''closed'' \<and> ''status:done'' \<notin> set (map name (labels i))
        \<and> ''status:testing'' \<notin> set (map name (labels i))
        \<and> ''status:in-progress'' \<notin> set (map name (labels i))
        \<and> ''status:todo'' \<notin> set (map name (labels i))"
    using that unfolding categorize_column_def Let_def by simp
  show "getSeverity (pre @ l # post)
        = Some (takeWhile (\<lambda>x. x \<noteq> CHR '':'') (drop (length ''severity:'') (name l)))"
    if "(\<forall>x\<in>set pre. \<not> startsWith (name x) ''severity:'') \<and> startsWith (name l) ''severity:''"
    using that getSeverity_first[of pre l post] by blast
  show "getCategory (pre @ l # post)
        = Some (takeWhile (\<lambda>x. x \<noteq> CHR '':'') (drop (length ''category:'') (name l)))"
    if "(\<forall>x\<in>set pre. \<not> startsWith (name x) ''category:'') \<and> startsWith (name l) ''category:''"
    using that getCategory_first[of pre l post] by blast
  show "categorize_column i = categorize_column j"
    if "set (map name (labels i)) = set (map name (labels j)) \<and> state i = state j"
    using that unfolding categorize_column_def Let_def by simp
  show "categorize_column i = ''testing''"
    if "state i \<noteq> ''closed'' \<and> ''status:done'' \<notin> set (map name (labels i))
        \<and> ''status:testing'' \<in> set (map name (labels i))"
    using that unfolding categorize_column_def Let_def by simp
  show "categorize_column i = ''inProgress''"
    if "state i \<noteq> ''closed'' \<and> ''status:done'' \<notin> set (map name (labels i))
        \<and> ''status:testing'' \<notin> set (map name (labels i))
        \<and> ''status:in-progress'' \<in> set (map name (labels i))"
    using that unfolding categorize_column_def Let_def by simp
qed

theorem mapper_family_winner_witness:
  "getSeverity (labels (example_issue ''open'' [''bug'', ''severity:high'', ''severity:low'']))
     = Some ''high''
   \<and> getCategory (labels (example_issue ''open'' [''category:ui'', ''bug'', ''category:vr'']))
     = Some ''ui''
   \<and> categorize_column (example_issue ''open'' [''status:todo'', ''status:testing''])
     = categorize_column (example_issue ''open'' [''status:testing'', ''status:todo''])
   \<and> categorize_column (example_issue ''open'' [''status:testing'', ''status:todo'']) = ''testing''
   \<and> categorize_column (example_issue ''open'' [''status:testing'', ''status:done'']) = ''done''
   \<and> categorize_column (example_issue ''open'' [''status:backlog'', ''status:todo'']) = ''todo''
   \<and> categorize_column (example_issue ''open'' [''status:todo'', ''status:in-progress''])
     = ''inProgress''
   \<and> categorize_column (example_issue ''open'' [''status:backlog'', ''bug'']) = ''backlog''"
proof -
  let ?d = "example_issue ''open'' [''status:testing'', ''status:done'']"
  let ?t = "example_issue ''open'' [''status:backlog'', ''status:todo'']"
  let ?p = "example_issue ''open'' [''status:todo'', ''status:in-progress'']"
  let ?k = "example_issue ''open'' [''status:backlog'', ''bug'']"
  have hd: "state ?d = ''closed'' \<or> ''status:done'' \<in> set (map name (labels ?d))"
    by (simp add: example_issue_def)
  have htd: "state ?t \<noteq> ''closed'' \<and> ''status:done'' \<notin> set (map name (labels ?t))
        \<and> ''status:testing'' \<notin> set (map name (labels ?t))
        \<and> ''status:in-progress'' \<notin> set (map name (labels ?t))
        \<and> ''status:todo'' \<in> set (map name (labels ?t))"
    by (simp add: example_issue_def)
  have hp: "state ?p \<noteq> ''closed'' \<and> ''status:done'' \<notin> set (map name (labels ?p))
        \<and> ''status:testing'' \<notin> set (map name (labels ?p))
        \<and> ''status:in-progress'' \<in> set (map name (labels ?p))"
    by (simp add: example_issue_def)
  have hk: "state ?k \<noteq> ''closed'' \<and> ''status:done'' \<notin> set (map name (labels ?k))
        \<and> ''status:testing'' \<notin> set (map name (labels ?k))
        \<and> ''status:in-progress'' \<notin> set (map name (labels ?k))
        \<and> ''status:todo'' \<notin> set (map name (labels ?k))"
    by (simp add: example_issue_def)
  let ?lab = "\<lambda>n. \<lparr>name = n, color = ''ededed''\<rparr>"
  let ?a = "example_issue ''open'' [''status:todo'', ''status:testing'']"
  let ?b = "example_issue ''open'' [''status:testing'', ''status:todo'']"
  have s: "labels (example_issue ''open'' [''bug'', ''severity:high'', ''severity:low''])
             = [?lab ''bug''] @ ?lab ''severity:high'' # [?lab ''severity:low'']"
    by (simp add: example_issue_def)
  have c: "labels (example_issue ''open'' [''category:ui'', ''bug'', ''category:vr''])
             = [] @ ?lab ''category:ui'' # [?lab ''bug'', ?lab ''category:vr'']"
    by (simp add: example_issue_def)
  have hs: "(\<forall>x\<in>set [?lab ''bug'']. \<not> startsWith (name x) ''severity:'')
             \<and> startsWith (name (?lab ''severity:high'')) ''severity:''"
    by (simp add: startsWith_def)
  have hc: "(\<forall>x\<in>set []. \<not> startsWith (name x) ''category:'')
             \<and> startsWith (name (?lab ''category:ui'')) ''category:''"
    by (simp add: startsWith_def)
  have hi: "set (map name (labels ?a)) = set (map name (labels ?b)) \<and> state ?a = state ?b"
    by (auto simp: example_issue_def)
  have ht: "state ?b \<noteq> ''closed'' \<and> ''status:done'' \<notin> set (map name (labels ?b))
        \<and> ''status:testing'' \<in> set (map name (labels ?b))"
    by (simp add: example_issue_def)
  have 1: "getSeverity ([?lab ''bug''] @ ?lab ''severity:high'' # [?lab ''severity:low''])
             = Some ''high''"
    using mapper_family_winner[of "[?lab ''bug'']" "?lab ''severity:high''"
        "[?lab ''severity:low'']" ?a ?b] hs
    by simp
  have 2: "getCategory ([] @ ?lab ''category:ui'' # [?lab ''bug'', ?lab ''category:vr''])
             = Some ''ui''"
    using mapper_family_winner[of "[]" "?lab ''category:ui''"
        "[?lab ''bug'', ?lab ''category:vr'']" ?a ?b] hc
    by simp
  have 3: "categorize_column ?a = categorize_column ?b"
    using mapper_family_winner[of "[]" "?lab ''category:ui''" "[]" ?a ?b] hi by blast
  have 4: "categorize_column ?b = ''testing''"
    using mapper_family_winner[of "[]" "?lab ''category:ui''" "[]" ?b ?b] ht by blast
  have 5: "categorize_column ?d = ''done''"
    using mapper_family_winner[of "[]" "?lab ''category:ui''" "[]" ?d ?d] hd by blast
  have 6: "categorize_column ?t = ''todo''"
    using mapper_family_winner[of "[]" "?lab ''category:ui''" "[]" ?t ?t] htd by blast
  have 7: "categorize_column ?p = ''inProgress''"
    using mapper_family_winner[of "[]" "?lab ''category:ui''" "[]" ?p ?p] hp by blast
  have 8: "categorize_column ?k = ''backlog''"
    using mapper_family_winner[of "[]" "?lab ''category:ui''" "[]" ?k ?k] hk by blast
  from 1 2 3 4 5 6 7 8 show ?thesis unfolding s c by blast
qed

section \<open>Properties of the gateway\<close>

subsection \<open>The rate limiter\<close>






lemmas fixture_defs =
  example_env_def world_at_def up_answer_def upstream_with_def upstream_down_def
  upstream_not_modified_def
  crash_body_def crash_request_def list_request_def labels_request_def saturated_env_def
  high_body_def high_request_def

lemmas gateway_defs =
  fetch_def getAllowedOrigin_def defaultOrigins_def handleGetIssues_def fetchIssues_def
  issues_githubUrl_def forwarded_params_def github_base_def gh_request_def
  handleBugSubmit_def handleUpdateLabels_def checkRateLimit_def validateAppToken_def
  kv_get_def kv_put_def truthy_def or_else_def ok_def bugLabels_def match_labels_route_def
  error_response_def status_accepted_def
  startsWith_def isdigit_def digits_def parseInt_def digit_val_def json_response_def
  cached_response_def not_found_def nth_opt_def List.map_filter_def Let_def




subsection \<open>The cache of issue listings\<close>






lemma listed_env_eq:
  "listed_env = example_env\<lparr>CACHE :=
     [''issues:https://api.github.com/repos/catnet-systems/vros-bugs/issues?state=open''
        \<mapsto> (''[]'', Some 300)]\<rparr>"
  unfolding listed_env_def by (simp add: fixture_defs gateway_defs)


subsection \<open>Routes\<close>

lemma digit_nth: "d < 10 \<Longrightarrow> isdigit (digits ! d)"
  unfolding isdigit_def by (rule nth_mem) (simp add: digits_def)

lemma toString_nat_digits: "toString_nat n \<noteq> [] \<and> (\<forall>c\<in>set (toString_nat n). isdigit c)"
proof (induction n rule: toString_nat.induct)
  case (1 n)
  show ?case
  proof (cases "n < 10")
    case True
    have "toString_nat n = [digits ! n]"
      using True by (subst toString_nat.simps) simp
    then show ?thesis
      using digit_nth[OF True] by simp
  next
    case False
    have m: "isdigit (digits ! (n mod 10))"
      by (rule digit_nth) simp
    have e: "toString_nat n = toString_nat (n div 10) @ [digits ! (n mod 10)]"
      using False by (subst toString_nat.simps) simp
    show ?thesis
      unfolding e using 1[OF False] m by simp
  qed
qed

lemma not_digit_slash: "\<not> isdigit CHR ''/''"
  by (simp add: isdigit_def digits_def)

lemma match_labels_route_digits:
  assumes "ds \<noteq> []" and "list_all isdigit ds"
  shows "match_labels_route (''/api/issues/'' @ ds @ ''/labels'') = Some ds"
proof -
  have d: "\<forall>c\<in>set ds. isdigit c"
    using assms(2) by (simp add: list_all_iff)
  have t: "takeWhile isdigit (ds @ ''/labels'') = ds"
    using d not_digit_slash by (simp add: takeWhile_append2)
  have dr: "dropWhile isdigit (ds @ ''/labels'') = ''/labels''"
    using d not_digit_slash by (simp add: dropWhile_append2)
  show ?thesis
    using assms(1) by (simp add: match_labels_route_def startsWith_def Let_def t dr)
qed

lemma match_labels_route_Some:
  assumes "match_labels_route p = Some ds"
  shows "ds \<noteq> [] \<and> list_all isdigit ds \<and> p = ''/api/issues/'' @ ds @ ''/labels''"
proof -
  let ?rest = "drop (length ''/api/issues/'') p"
  from assms have sw: "startsWith p ''/api/issues/''"
    by (auto simp: match_labels_route_def split: if_splits)
  from assms sw have m: "takeWhile isdigit ?rest \<noteq> []" "dropWhile isdigit ?rest = ''/labels''"
    "ds = takeWhile isdigit ?rest"
    by (auto simp: match_labels_route_def Let_def split: if_splits)
  have 1: "ds \<noteq> []"
    using m(1) unfolding m(3)[symmetric] .
  have "list_all isdigit (takeWhile isdigit ?rest)"
    by (auto simp: list_all_iff dest: set_takeWhileD)
  then have 2: "list_all isdigit ds"
    unfolding m(3)[symmetric] .
  have "takeWhile isdigit ?rest @ dropWhile isdigit ?rest = ?rest"
    by (rule takeWhile_dropWhile_id)
  then have r: "ds @ ''/labels'' = ?rest"
    unfolding m(2) m(3)[symmetric] .
  have "p = ''/api/issues/'' @ ?rest"
    by (rule startsWith_decompose[OF sw])
  then have 3: "p = ''/api/issues/'' @ ds @ ''/labels''"
    unfolding r[symmetric] .
  from 1 2 3 show ?thesis by blast
qed

lemma match_labels_route_issue: "match_labels_route (''/api/issues/'' @ toString_nat n) = None"
proof (cases "match_labels_route (''/api/issues/'' @ toString_nat n)")
  case None
  then show ?thesis .
next
  case (Some ds)
  from match_labels_route_Some[OF Some]
  have "list_all isdigit ds" and "toString_nat n = ds @ ''/labels''"
    by auto
  then have "CHR ''/'' \<in> set (toString_nat n)"
    by simp
  then have False
    using toString_nat_digits[of n] not_digit_slash by blast
  then show ?thesis ..
qed

lemma handleStatic_calls: "snd (snd (handleStatic w e cors k txt ttl)) = []"
  by (cases "kv_get (now w) (CACHE e) k") (simp_all add: handleStatic_def)

text \<open>
  C10: for every issue number \<open>n\<close>, written in decimal, a request to \<open>/api/issues/<n>\<close>
  with any method but \<open>OPTIONS\<close> (so \<open>GET\<close>, and \<open>PUT\<close> as well) gets the 404 envelope
  \<open>{error: 'Not found'}\<close> with no upstream call and no change of the environment.
  \<open>GET\<close> on exactly \<open>/api/issues\<close> is the listing, and a \<open>GET\<close> on any path other than
  that one and \<open>/api/stats\<close> makes no upstream call. \<open>/api/issues/<n>/labels\<close> is routed
  to \<open>handleUpdateLabels\<close> for \<open>PUT\<close> and is a 404 for every other method but
  \<open>OPTIONS\<close>; the labels route accepts exactly the paths \<open>/api/issues/\<close>, one or more
  digits, \<open>/labels\<close>, and a \<open>PUT\<close> on any other path is a 404 (or the health check).
\<close>

theorem issue_read_route_not_found:
  "fetch w (rq\<lparr>req_method := m, req_pathname := ''/api/issues/'' @ toString_nat n\<rparr>) e
     = (if m = ''OPTIONS'' then
          (Responded
             \<lparr> resp_status = 204, resp_allow_origin = getAllowedOrigin rq e,
               resp_content_type = None, resp_x_cache = None, resp_body = NoBody \<rparr>, e, [])
        else
          (Responded (json_response 404 (getAllowedOrigin rq e) (ErrorJson ''Not found'')), e, []))
   \<and> fetch w (rq\<lparr>req_method := ''GET'', req_pathname := ''/api/issues''\<rparr>) e
     = handleGetIssues w (rq\<lparr>req_method := ''GET'', req_pathname := ''/api/issues''\<rparr>) e
         (getAllowedOrigin rq e)
   \<and> fetch w (rq\<lparr>req_method := m,
                  req_pathname := ''/api/issues/'' @ toString_nat n @ ''/labels''\<rparr>) e
     = (if m = ''OPTIONS'' then
          (Responded
             \<lparr> resp_status = 204, resp_allow_origin = getAllowedOrigin rq e,
               resp_content_type = None, resp_x_cache = None, resp_body = NoBody \<rparr>, e, [])
        else if m = ''PUT'' then
          handleUpdateLabels w
            (rq\<lparr>req_method := m,
                 req_pathname := ''/api/issues/'' @ toString_nat n @ ''/labels''\<rparr>) e
            (getAllowedOrigin rq e) (toString_nat n)
        else
          (Responded (json_response 404 (getAllowedOrigin rq e) (ErrorJson ''Not found'')), e, []))
   \<and> (match_labels_route p = Some ds)
     = (ds \<noteq> [] \<and> list_all isdigit ds \<and> p = ''/api/issues/'' @ ds @ ''/labels'')
   \<and> fetch w (rq\<lparr>req_method := ''PUT''\<rparr>) e
     = (case match_labels_route (req_pathname rq) of
          Some issueNumber \<Rightarrow>
            handleUpdateLabels w (rq\<lparr>req_method := ''PUT''\<rparr>) e (getAllowedOrigin rq e)
              issueNumber
        | None \<Rightarrow>
            if req_pathname rq = ''/api/health'' then
              (Responded (json_response 200 (getAllowedOrigin rq e) (HealthJson (now_iso w))),
               e, [])
            else
              (Responded (json_response 404 (getAllowedOrigin rq e) (ErrorJson ''Not found'')),
               e, []))
   \<and> snd (snd (fetch w (rq\<lparr>req_method := ''GET''\<rparr>) e))
     = (if req_pathname rq = ''/api/issues'' then
          snd (snd (handleGetIssues w (rq\<lparr>req_method := ''GET''\<rparr>) e (getAllowedOrigin rq e)))
        else if req_pathname rq = ''/api/stats'' then
          snd (snd (handleStats w (rq\<lparr>req_method := ''GET''\<rparr>) e (getAllowedOrigin rq e)))
        else [])"
proof -
  have ne: "toString_nat n \<noteq> []" and dg: "list_all isdigit (toString_nat n)"
    using toString_nat_digits[of n] by (simp_all add: list_all_iff)
  have o: "\<And>m p. getAllowedOrigin (rq\<lparr>req_method := m, req_pathname := p\<rparr>) e
             = getAllowedOrigin rq e"
    "\<And>m. getAllowedOrigin (rq\<lparr>req_method := m\<rparr>) e = getAllowedOrigin rq e"
    by (simp_all add: getAllowedOrigin_def)
  have a: "fetch w (rq\<lparr>req_method := m, req_pathname := ''/api/issues/'' @ toString_nat n\<rparr>) e
     = (if m = ''OPTIONS'' then
          (Responded
             \<lparr> resp_status = 204, resp_allow_origin = getAllowedOrigin rq e,
               resp_content_type = None, resp_x_cache = None, resp_body = NoBody \<rparr>, e, [])
        else
          (Responded (json_response 404 (getAllowedOrigin rq e) (ErrorJson ''Not found'')), e, []))"
    using ne match_labels_route_issue[of n] by (simp add: fetch_def o not_found_def Let_def)
  have b: "fetch w (rq\<lparr>req_method := ''GET'', req_pathname := ''/api/issues''\<rparr>) e
     = handleGetIssues w (rq\<lparr>req_method := ''GET'', req_pathname := ''/api/issues''\<rparr>) e
         (getAllowedOrigin rq e)"
    by (simp add: fetch_def o Let_def)
  have c: "fetch w (rq\<lparr>req_method := m,
                  req_pathname := ''/api/issues/'' @ toString_nat n @ ''/labels''\<rparr>) e
     = (if m = ''OPTIONS'' then
          (Responded
             \<lparr> resp_status = 204, resp_allow_origin = getAllowedOrigin rq e,
               resp_content_type = None, resp_x_cache = None, resp_body = NoBody \<rparr>, e, [])
        else if m = ''PUT'' then
          handleUpdateLabels w
            (rq\<lparr>req_method := m,
                 req_pathname := ''/api/issues/'' @ toString_nat n @ ''/labels''\<rparr>) e
            (getAllowedOrigin rq e) (toString_nat n)
        else
          (Responded (json_response 404 (getAllowedOrigin rq e) (ErrorJson ''Not found'')), e, []))"
    using ne match_labels_route_digits[OF ne dg] by (simp add: fetch_def o not_found_def Let_def)
  have d: "(match_labels_route p = Some ds)
     = (ds \<noteq> [] \<and> list_all isdigit ds \<and> p = ''/api/issues/'' @ ds @ ''/labels'')"
    using match_labels_route_Some[of p ds] match_labels_route_digits[of ds] by blast
  have f: "fetch w (rq\<lparr>req_method := ''PUT''\<rparr>) e
     = (case match_labels_route (req_pathname rq) of
          Some issueNumber \<Rightarrow>
            handleUpdateLabels w (rq\<lparr>req_method := ''PUT''\<rparr>) e (getAllowedOrigin rq e)
              issueNumber
        | None \<Rightarrow>
            if req_pathname rq = ''/api/health'' then
              (Responded (json_response 200 (getAllowedOrigin rq e) (HealthJson (now_iso w))),
               e, [])
            else
              (Responded (json_response 404 (getAllowedOrigin rq e) (ErrorJson ''Not found'')),
               e, []))"
    by (simp add: fetch_def o not_found_def Let_def split: option.splits)
  have g: "snd (snd (fetch w (rq\<lparr>req_method := ''GET''\<rparr>) e))
     = (if req_pathname rq = ''/api/issues'' then
          snd (snd (handleGetIssues w (rq\<lparr>req_method := ''GET''\<rparr>) e (getAllowedOrigin rq e)))
        else if req_pathname rq = ''/api/stats'' then
          snd (snd (handleStats w (rq\<lparr>req_method := ''GET''\<rparr>) e (getAllowedOrigin rq e)))
        else [])"
    by (simp add: fetch_def o handlePatchNotes_def handleLatestVersion_def handleStatic_calls
        Let_def)
  from a b c d f g show ?thesis by blast
qed

subsection \<open>Submitting a bug\<close>

lemma toString_int_101: "toString_int 101 = ''101''"
  by (simp add: toString_int_def toString_nat.simps digits_def)

lemma checkRateLimit_env:
  "\<exists>rl. snd (checkRateLimit w ip e) = e\<lparr>RATE_LIMIT := rl\<rparr>"
proof -
  have "snd (checkRateLimit w ip e) = e \<or> (\<exists>rl. snd (checkRateLimit w ip e) = e\<lparr>RATE_LIMIT := rl\<rparr>)"
    by (auto simp: checkRateLimit_def Let_def split: option.splits)
  moreover have "e = e\<lparr>RATE_LIMIT := RATE_LIMIT e\<rparr>"
    by simp
  ultimately show ?thesis by metis
qed

lemma validateAppToken_env:
  "\<exists>tk. snd (validateAppToken w token e) = e\<lparr>TOKENS := tk\<rparr>"
proof -
  have "snd (validateAppToken w token e) = e
          \<or> (\<exists>tk. snd (validateAppToken w token e) = e\<lparr>TOKENS := tk\<rparr>)"
    by (auto simp: validateAppToken_def split: option.splits)
  moreover have "e = e\<lparr>TOKENS := TOKENS e\<rparr>"
    by simp
  ultimately show ?thesis by metis
qed

lemma validateAppToken_anonymous:
  assumes "token = None \<or>
           (\<exists>t. token = Some t \<and> kv_get (now w) (TOKENS e) t = None \<and> \<not> startsWith t ''vros-'')"
  shows "validateAppToken w token e = (False, e)"
  using assms by (auto simp: validateAppToken_def truthy_def)

lemma handleBugSubmit_calls:
  assumes "c \<in> set (snd (snd (handleBugSubmit w rq e cors)))"
  shows "\<exists>b app. req_json rq = Some b \<and>
           up_payload c = CreateIssue (or_else (b_title b) []) (issueBody b app) (bugLabels b app)"
proof (cases "req_json rq")
  case None
  with assms show ?thesis
    by (auto simp: handleBugSubmit_def Let_def split_beta split: if_splits)
next
  case (Some b)
  with assms have "\<exists>app. up_payload c
      = CreateIssue (or_else (b_title b) []) (issueBody b app) (bugLabels b app)"
    by (auto simp: handleBugSubmit_def Let_def split_beta gh_request_def
        split: if_splits option.splits)
  with Some show ?thesis by blast
qed

lemma bugLabels_severity:
  "(''severity:'' @ x \<in> set (bugLabels b app)) = (b_severity b = Some x \<and> x \<noteq> [])"
  by (cases "b_severity b") (auto simp: bugLabels_def truthy_def or_else_def)

lemma bugLabels_category:
  "(''category:'' @ y \<in> set (bugLabels b app)) = (b_category b = Some y \<and> y \<noteq> [])"
  by (cases "b_category b") (auto simp: bugLabels_def truthy_def or_else_def)

lemma startsWith_append: "startsWith (p @ rest) p"
  by (simp add: startsWith_def)

lemma issueBody_defaults:
  assumes "\<not> truthy (b_severity b)" and "\<not> truthy (b_category b)"
  shows "startsWith (issueBody b app)
           (concat [''## Description'', nl, or_else (b_description b) [], nl, nl,
                    ''## Severity'', nl, ''medium'', nl, nl,
                    ''## Category'', nl, ''general'', nl])"
proof -
  have d: "or_else (b_severity b) ''medium'' = ''medium''"
    "or_else (b_category b) ''general'' = ''general''"
    using assms by (auto simp: truthy_def or_else_def split: option.splits)
  have "\<exists>rest. issueBody b app
      = concat [''## Description'', nl, or_else (b_description b) [], nl, nl,
                ''## Severity'', nl, ''medium'', nl, nl,
                ''## Category'', nl, ''general'', nl] @ rest"
    unfolding issueBody_def d by simp
  then obtain rest where eq: "issueBody b app
      = concat [''## Description'', nl, or_else (b_description b) [], nl, nl,
                ''## Severity'', nl, ''medium'', nl, nl,
                ''## Category'', nl, ''general'', nl] @ rest"
    by blast
  show ?thesis
    unfolding eq by (rule startsWith_append)
qed

text \<open>
  C3, as stated, fails: the scenario's request succeeds, and the issue is created with
  the labels \<open>bug\<close> and \<open>web-submission\<close> only; \<open>severity:medium\<close> is not among them.
\<close>

theorem submit_without_severity_labels:
  "fst (fetch (world_at 0 (upstream_with ''[]'')) crash_request example_env)
     = Responded (json_response 200 (Some ''https://support.vros.cat'')
         (SubmittedJson (Some 101)
            (Some ''https://github.com/catnet-systems/vros-bugs/issues/101'')))
   \<and> map (\<lambda>c. payload_labels (up_payload c))
         (snd (snd (fetch (world_at 0 (upstream_with ''[]'')) crash_request example_env)))
     = [[''bug'', ''web-submission'']]
   \<and> ''severity:medium'' \<notin> set [''bug'', ''web-submission'']"
  by (simp add: fixture_defs gateway_defs toString_int_101)

text \<open>
  C3, amended: for a request whose body has non-empty title and description and no (or
  an empty) severity and category, sent with no token or with one that is neither stored
  nor starts with \<open>vros-\<close>, if the rate limiter admits the address and the upstream
  answers the creation with a 2xx status and the number \<open>n\<close>, the gateway answers 200
  with the success envelope carrying \<open>n\<close>, and it made exactly one upstream call,
  creating the issue with the labels \<open>bug\<close> and \<open>web-submission\<close> and the generated
  body, which starts with the description, then \<open>## Severity\<close> with the default
  \<open>medium\<close>, then \<open>## Category\<close> with the default \<open>general\<close>. For every
  request, an upstream call made by the handler carries the label \<open>severity:x\<close> exactly
  when the body's severity is the non-empty \<open>x\<close>, and \<open>category:y\<close> exactly when its
  category is the non-empty \<open>y\<close>.
\<close>

theorem handleBugSubmit_anonymous_defaults:
  assumes body: "req_json rq = Some b" "truthy (b_title b)" "truthy (b_description b)"
      and nosev: "\<not> truthy (b_severity b)" "\<not> truthy (b_category b)"
      and anon: "req_app_token rq = None \<or>
                 (\<exists>t. req_app_token rq = Some t \<and> kv_get (now w) (TOKENS e) t = None \<and>
                      \<not> startsWith t ''vros-'')"
      and adm: "checkRateLimit w (or_else (req_ip rq) ''unknown'') e = (True, e1)"
      and up: "upstream w
                 (gh_request e ''POST'' (github_base e @ ''/issues'')
                    (CreateIssue (or_else (b_title b) []) (issueBody b False)
                       [''bug'', ''web-submission''])) = Some r"
              "ok r" "up_number r = Some n"
  shows "handleBugSubmit w rq e cors =
           (Responded (json_response 200 cors (SubmittedJson (Some n) (up_html_url r))), e1,
            [gh_request e ''POST'' (github_base e @ ''/issues'')
               (CreateIssue (or_else (b_title b) []) (issueBody b False)
                  [''bug'', ''web-submission''])])
       \<and> startsWith (issueBody b False)
           (concat [''## Description'', nl, or_else (b_description b) [], nl, nl,
                    ''## Severity'', nl, ''medium'', nl, nl,
                    ''## Category'', nl, ''general'', nl])
       \<and> (c \<in> set (snd (snd (handleBugSubmit w' rq' e' cors'))) \<and> req_json rq' = Some b' \<longrightarrow>
            (''severity:'' @ x \<in> set (payload_labels (up_payload c)))
              = (b_severity b' = Some x \<and> x \<noteq> [])
            \<and> (''category:'' @ y \<in> set (payload_labels (up_payload c)))
              = (b_category b' = Some y \<and> y \<noteq> []))"
proof -
  obtain rl where e1: "e1 = e\<lparr>RATE_LIMIT := rl\<rparr>"
    using checkRateLimit_env[of w "or_else (req_ip rq) ''unknown''" e] adm by auto
  have tok: "validateAppToken w (req_app_token rq) e1 = (False, e1)"
    by (rule validateAppToken_anonymous) (use anon e1 in auto)
  have g: "gh_request e1 = gh_request e" "github_base e1 = github_base e"
    by (auto simp: e1 gh_request_def github_base_def fun_eq_iff)
  have l: "bugLabels b False = [''bug'', ''web-submission'']"
    using nosev by (simp add: bugLabels_def)
  have main: "handleBugSubmit w rq e cors =
           (Responded (json_response 200 cors (SubmittedJson (Some n) (up_html_url r))), e1,
            [gh_request e ''POST'' (github_base e @ ''/issues'')
               (CreateIssue (or_else (b_title b) []) (issueBody b False)
                  [''bug'', ''web-submission''])])"
    using body up by (simp add: handleBugSubmit_def adm tok g l)
  have body_text: "startsWith (issueBody b False)
           (concat [''## Description'', nl, or_else (b_description b) [], nl, nl,
                    ''## Severity'', nl, ''medium'', nl, nl,
                    ''## Category'', nl, ''general'', nl])"
    using nosev by (rule issueBody_defaults)
  have label_rule: "(''severity:'' @ x \<in> set (payload_labels (up_payload c)))
              = (b_severity b' = Some x \<and> x \<noteq> [])
            \<and> (''category:'' @ y \<in> set (payload_labels (up_payload c)))
              = (b_category b' = Some y \<and> y \<noteq> [])"
    if h: "c \<in> set (snd (snd (handleBugSubmit w' rq' e' cors'))) \<and> req_json rq' = Some b'"
  proof -
    from h handleBugSubmit_calls[of c w' rq' e' cors']
    obtain app where "up_payload c
        = CreateIssue (or_else (b_title b') []) (issueBody b' app) (bugLabels b' app)"
      by auto
    then have "payload_labels (up_payload c) = bugLabels b' app"
      by simp
    then show ?thesis
      by (simp only: bugLabels_severity bugLabels_category simp_thms)
  qed
  from main body_text label_rule show ?thesis
    by blast
qed

lemma crash_issueBody:
  "issueBody crash_body False = concat
     [''## Description'', nl, ''App crashes immediately'', nl, nl,
      ''## Severity'', nl, ''medium'', nl, nl,
      ''## Category'', nl, ''general'', nl, nl,
      nl, nl, nl, nl,
      ''## System Information'', nl,
      ''- **Submitted from:** Web'', nl,
      ''- **OS:** Unknown'', nl,
      ''- **Browser:** Unknown'', nl,
      ''- **App Version:** N/A'', nl,
      ''- **VR Headset:** None'', nl, nl,
      nl, nl,
      ''---'', nl,
      ''*Submitted via VROS Bug Tracker (Web)*'']"
  by (simp add: issueBody_def crash_body_def or_else_def truthy_def sys_field_def)

theorem handleBugSubmit_anonymous_defaults_witness:
  "handleBugSubmit (world_at 0 (upstream_with ''[]'')) crash_request example_env
       (Some ''https://support.vros.cat'')
     = (Responded (json_response 200 (Some ''https://support.vros.cat'')
          (SubmittedJson (Some 101)
             (Some ''https://github.com/catnet-systems/vros-bugs/issues/101''))),
        example_env\<lparr>RATE_LIMIT := [''rate:203.0.113.7'' \<mapsto> (''1'', Some 3600)]\<rparr>,
        [gh_request example_env ''POST''
           ''https://api.github.com/repos/catnet-systems/vros-bugs/issues''
           (CreateIssue ''Crash on launch'' (issueBody crash_body False)
              [''bug'', ''web-submission''])])
   \<and> startsWith (issueBody crash_body False)
        (concat [''## Description'', nl, ''App crashes immediately'', nl, nl,
                 ''## Severity'', nl, ''medium'', nl, nl,
                 ''## Category'', nl, ''general'', nl])
   \<and> ''severity:high'' \<in> set (payload_labels (up_payload
        (gh_request example_env ''POST''
           ''https://api.github.com/repos/catnet-systems/vros-bugs/issues''
           (CreateIssue ''Crash on launch'' (issueBody high_body False)
              [''bug'', ''severity:high'', ''web-submission'']))))
   \<and> ''category:general'' \<notin> set (payload_labels (up_payload
        (gh_request example_env ''POST''
           ''https://api.github.com/repos/catnet-systems/vros-bugs/issues''
           (CreateIssue ''Crash on launch'' (issueBody high_body False)
              [''bug'', ''severity:high'', ''web-submission'']))))"
proof -
  let ?w = "world_at 0 (upstream_with ''[]'')"
  let ?cors = "Some ''https://support.vros.cat''"
  let ?e1 = "example_env\<lparr>RATE_LIMIT := [''rate:203.0.113.7'' \<mapsto> (''1'', Some 3600)]\<rparr>"
  let ?r = "up_answer 201 ''{}'' (Some 101)"
  let ?c = "gh_request example_env ''POST''
           ''https://api.github.com/repos/catnet-systems/vros-bugs/issues''
           (CreateIssue ''Crash on launch'' (issueBody high_body False)
              [''bug'', ''severity:high'', ''web-submission''])"
  have b: "req_json crash_request = Some crash_body"
    by (simp add: crash_request_def)
  have t: "truthy (b_title crash_body)" "truthy (b_description crash_body)"
    by (simp_all add: crash_body_def truthy_def)
  have s: "\<not> truthy (b_severity crash_body)" "\<not> truthy (b_category crash_body)"
    by (simp_all add: crash_body_def truthy_def)
  have a: "req_app_token crash_request = None \<or>
             (\<exists>t. req_app_token crash_request = Some t
                  \<and> kv_get (now ?w) (TOKENS example_env) t = None \<and> \<not> startsWith t ''vros-'')"
    by (simp add: crash_request_def)
  have adm: "checkRateLimit ?w (or_else (req_ip crash_request) ''unknown'') example_env
               = (True, ?e1)"
    by (simp add: fixture_defs checkRateLimit_def kv_get_def kv_put_def or_else_def)
  have u: "upstream ?w
             (gh_request example_env ''POST'' (github_base example_env @ ''/issues'')
                (CreateIssue (or_else (b_title crash_body) []) (issueBody crash_body False)
                   [''bug'', ''web-submission''])) = Some ?r"
    by (simp add: world_at_def upstream_with_def gh_request_def)
  have k: "ok ?r" "up_number ?r = Some 101"
    by (simp_all add: up_answer_def ok_def)
  have high: "?c \<in> set (snd (snd (handleBugSubmit ?w high_request example_env ?cors)))
                \<and> req_json high_request = Some high_body"
    by (simp add: fixture_defs handleBugSubmit_def checkRateLimit_def validateAppToken_def
        kv_get_def kv_put_def truthy_def or_else_def ok_def bugLabels_def gh_request_def
        github_base_def Let_def)
  note inst = handleBugSubmit_anonymous_defaults[OF b t s a adm u k,
      where cors = ?cors and c = ?c and w' = ?w and rq' = high_request and e' = example_env
        and cors' = ?cors and b' = high_body and x = "''high''" and y = "''general''"]
  have 1: "handleBugSubmit ?w crash_request example_env ?cors
     = (Responded (json_response 200 ?cors
          (SubmittedJson (Some 101)
             (Some ''https://github.com/catnet-systems/vros-bugs/issues/101''))),
        ?e1,
        [gh_request example_env ''POST''
           ''https://api.github.com/repos/catnet-systems/vros-bugs/issues''
           (CreateIssue ''Crash on launch'' (issueBody crash_body False)
              [''bug'', ''web-submission''])])"
    using inst
    by (simp add: up_answer_def toString_int_101 github_base_def example_env_def
        crash_body_def or_else_def)
  have 2: "startsWith (issueBody crash_body False)
        (concat [''## Description'', nl, ''App crashes immediately'', nl, nl,
                 ''## Severity'', nl, ''medium'', nl, nl,
                 ''## Category'', nl, ''general'', nl])"
  proof -
    have "or_else (b_description crash_body) [] = ''App crashes immediately''"
      by (simp add: crash_body_def or_else_def)
    with inst show ?thesis by simp
  qed
  have 3: "(''severity:'' @ ''high'' \<in> set (payload_labels (up_payload ?c)))
              = (b_severity high_body = Some ''high'' \<and> ''high'' \<noteq> [])
          \<and> (''category:'' @ ''general'' \<in> set (payload_labels (up_payload ?c)))
              = (b_category high_body = Some ''general'' \<and> ''general'' \<noteq> [])"
    using inst high by blast
  have 4: "''severity:high'' \<in> set (payload_labels (up_payload ?c))
         \<and> ''category:general'' \<notin> set (payload_labels (up_payload ?c))"
    using 3 by (simp add: high_body_def crash_body_def)
  from 1 2 4 show ?thesis by blast
qed

subsection \<open>Writes and the gateway cache\<close>

lemma handleBugSubmit_env:
  "\<exists>tk rl. fst (snd (handleBugSubmit w rq e cors)) = e\<lparr>TOKENS := tk, RATE_LIMIT := rl\<rparr>"
proof -
  obtain rl where e1:
    "snd (checkRateLimit w (or_else (req_ip rq) ''unknown'') e) = e\<lparr>RATE_LIMIT := rl\<rparr>"
    using checkRateLimit_env by blast
  obtain tk where e2:
    "snd (validateAppToken w (req_app_token rq) (e\<lparr>RATE_LIMIT := rl\<rparr>))
       = e\<lparr>RATE_LIMIT := rl, TOKENS := tk\<rparr>"
    using validateAppToken_env[of w "req_app_token rq" "e\<lparr>RATE_LIMIT := rl\<rparr>"] by auto
  have "fst (snd (handleBugSubmit w rq e cors)) = e\<lparr>RATE_LIMIT := rl\<rparr>
      \<or> fst (snd (handleBugSubmit w rq e cors)) = e\<lparr>RATE_LIMIT := rl, TOKENS := tk\<rparr>"
    using e1 e2
    by (auto simp: handleBugSubmit_def Let_def split_beta split: option.splits)
  moreover have "e\<lparr>RATE_LIMIT := rl\<rparr> = e\<lparr>TOKENS := TOKENS e, RATE_LIMIT := rl\<rparr>"
    by simp
  moreover have "e\<lparr>RATE_LIMIT := rl, TOKENS := tk\<rparr> = e\<lparr>TOKENS := tk, RATE_LIMIT := rl\<rparr>"
    by simp
  ultimately show ?thesis by metis
qed

lemma handleUpdateLabels_env: "fst (snd (handleUpdateLabels w rq e cors issueNumber)) = e"
  by (simp add: handleUpdateLabels_def Let_def split: option.splits)

lemma handleGetIssues_hit:
  "kv_get (now w) (CACHE e) (''issues:'' @ issues_githubUrl e (req_searchParams rq)) = Some cached
   \<Longrightarrow> cached \<noteq> [] \<Longrightarrow>
   handleGetIssues w rq e cors = (Responded (cached_response cors ''HIT'' cached), e, [])"
  by (simp add: handleGetIssues_def Let_def)

lemma submitted_env_eq:
  "submitted_env = example_env\<lparr>
     RATE_LIMIT := [''rate:203.0.113.7'' \<mapsto> (''1'', Some 3610)],
     CACHE := [''issues:https://api.github.com/repos/catnet-systems/vros-bugs/issues?state=open''
                 \<mapsto> (''[]'', Some 300)]\<rparr>"
  unfolding submitted_env_def listed_env_eq by (simp add: fixture_defs gateway_defs)

text \<open>
  C5, as stated, fails: a listing cached at time 0, a bug submitted with success at time
  10 (the upstream creates issue 101), and the same listing asked at time 20. The
  upstream would now answer with the new issue; the gateway answers from its cache with
  the copy made before the write, and makes no upstream call.
\<close>

theorem stale_listing_after_submit:
  \<open>fst (fetch (world_at 10 (upstream_with ''[]'')) crash_request listed_env)
     = Responded (json_response 200 (Some ''https://support.vros.cat'')
         (SubmittedJson (Some 101)
            (Some ''https://github.com/catnet-systems/vros-bugs/issues/101'')))
   \<and> upstream (world_at 20 (upstream_with ''[{"number":101}]''))
        (gh_request submitted_env ''GET''
           ''https://api.github.com/repos/catnet-systems/vros-bugs/issues?state=open'' NoPayload)
     = Some (up_answer 200 ''[{"number":101}]'' None)
   \<and> fetch (world_at 20 (upstream_with ''[{"number":101}]'')) list_request submitted_env
     = (Responded (cached_response (Some ''https://bugs.vros.cat'') ''HIT'' ''[]''),
        submitted_env, [])\<close>
  unfolding submitted_env_eq listed_env_eq
  by (simp add: fixture_defs gateway_defs toString_int_101)

text \<open>
  C5, amended: no write handler of the gateway touches the gateway's cache: submitting a
  bug leaves \<open>CACHE\<close> as it was, and replacing labels leaves the whole environment as it
  was, whether the write succeeds or not. A listing that is cached and live is therefore
  still served from the cache after the write, until its time to live (300 seconds) runs
  out. The tracker client empties its own in-memory cache after a successful
  \<open>updateIssueLabels\<close>, and keeps it when the call fails.
\<close>

theorem gateway_writes_keep_cache:
  "CACHE (fst (snd (handleBugSubmit w rq e cors))) = CACHE e
   \<and> fst (snd (handleUpdateLabels w rq e cors issueNumber)) = e
   \<and> ((e' = fst (snd (handleBugSubmit w rq e cors))
          \<or> e' = fst (snd (handleUpdateLabels w rq e cors issueNumber)))
        \<and> kv_get (now w') (CACHE e) (''issues:'' @ issues_githubUrl e (req_searchParams rq'))
            = Some cached
        \<and> cached \<noteq> []
        \<longrightarrow> handleGetIssues w' rq' e' cors'
              = (Responded (cached_response cors' ''HIT'' cached), e', []))
   \<and> (case fst (updateIssueLabels get_issue put_labels i newStatus cache) of
         Inl err \<Rightarrow> snd (updateIssueLabels get_issue put_labels i newStatus cache) = cache
       | Inr response \<Rightarrow>
           snd (updateIssueLabels get_issue put_labels i newStatus cache) = Map.empty)"
proof (intro conjI impI)
  obtain tk rl where s: "fst (snd (handleBugSubmit w rq e cors)) = e\<lparr>TOKENS := tk, RATE_LIMIT := rl\<rparr>"
    using handleBugSubmit_env by blast
  show c: "CACHE (fst (snd (handleBugSubmit w rq e cors))) = CACHE e"
    unfolding s by simp
  show u: "fst (snd (handleUpdateLabels w rq e cors issueNumber)) = e"
    by (rule handleUpdateLabels_env)
  show "handleGetIssues w' rq' e' cors' = (Responded (cached_response cors' ''HIT'' cached), e', [])"
    if h: "(e' = fst (snd (handleBugSubmit w rq e cors))
          \<or> e' = fst (snd (handleUpdateLabels w rq e cors issueNumber)))
        \<and> kv_get (now w') (CACHE e) (''issues:'' @ issues_githubUrl e (req_searchParams rq'))
            = Some cached
        \<and> cached \<noteq> []"
  proof -
    from h have "e' = e\<lparr>TOKENS := tk, RATE_LIMIT := rl\<rparr> \<or> e' = e"
      unfolding s u by blast
    then have same: "CACHE e' = CACHE e"
      "issues_githubUrl e' (req_searchParams rq') = issues_githubUrl e (req_searchParams rq')"
      by (auto simp: issues_githubUrl_def github_base_def)
    show ?thesis
      by (rule handleGetIssues_hit) (use h same in auto)
  qed
  show "case fst (updateIssueLabels get_issue put_labels i newStatus cache) of
         Inl err \<Rightarrow> snd (updateIssueLabels get_issue put_labels i newStatus cache) = cache
       | Inr response \<Rightarrow>
           snd (updateIssueLabels get_issue put_labels i newStatus cache) = Map.empty"
    by (simp add: updateIssueLabels_def split: sum.splits)
qed

theorem gateway_writes_keep_cache_witness:
  "CACHE submitted_env = CACHE listed_env
   \<and> handleGetIssues (world_at 299 upstream_down) list_request submitted_env
        (Some ''https://bugs.vros.cat'')
     = (Responded (cached_response (Some ''https://bugs.vros.cat'') ''HIT'' ''[]''),
        submitted_env, [])"
proof -
  let ?w = "world_at 10 (upstream_with ''[]'')"
  let ?cors = "Some ''https://support.vros.cat''"
  have sub: "submitted_env = fst (snd (handleBugSubmit ?w crash_request listed_env ?cors))"
    unfolding submitted_env_def listed_env_eq
    by (simp add: fetch_def crash_request_def getAllowedOrigin_def defaultOrigins_def
        example_env_def nth_opt_def)
  have hit: "kv_get (now (world_at 299 upstream_down)) (CACHE listed_env)
               (''issues:'' @ issues_githubUrl listed_env (req_searchParams list_request))
               = Some ''[]'' \<and> ''[]'' \<noteq> []"
    unfolding listed_env_eq
    by (simp add: fixture_defs kv_get_def issues_githubUrl_def forwarded_params_def
        github_base_def List.map_filter_def)
  from gateway_writes_keep_cache[of ?w crash_request listed_env ?cors "''42''" submitted_env
      "world_at 299 upstream_down" list_request "''[]''" "Some ''https://bugs.vros.cat''"
      "\<lambda>_. Inl ''API Error 404''" "\<lambda>_ _. Inl ''API Error 404'' :: string + unit" 42
      "''testing''" "Map.empty :: string \<rightharpoonup> unit"]
    sub hit
  show ?thesis by simp
qed

subsection \<open>Gate checks of the write handlers\<close>

lemma handleBugSubmit_rate_limited:
  "checkRateLimit w (or_else (req_ip rq) ''unknown'') e = (False, e1) \<Longrightarrow>
   handleBugSubmit w rq e cors =
     (Responded
        (json_response 429 cors (ErrorJson ''Rate limit exceeded. Please try again later.'')),
      e1, [])"
  by (simp add: handleBugSubmit_def)

text \<open>
  C6 holds for \<open>POST /api/submit-bug\<close> and fails for \<open>PUT /api/issues/:number/labels\<close>:
  \<open>handleUpdateLabels\<close> calls neither \<open>checkRateLimit\<close> nor \<open>validateAppToken\<close>. From an
  address whose counter stands at 10, at a time when the rate limiter refuses it and a
  bug submission gets 429, a label replacement with no token goes upstream and is
  answered 200; the counter and the token store are not touched.
\<close>

theorem labels_route_skips_rate_limit:
  "fetch (world_at 100 (upstream_with ''[]'')) labels_request saturated_env
     = (Responded (json_response 200 (Some ''https://bugs.vros.cat'') (ReparsedJson ''[]'')),
        saturated_env,
        [\<lparr> up_method = ''PUT'',
            up_url = ''https://api.github.com/repos/catnet-systems/vros-bugs/issues/42/labels'',
            up_authorization = ''Bearer secret'',
            up_payload = ReplaceLabels [''bug'', ''status:testing''] \<rparr>])
   \<and> checkRateLimit (world_at 100 (upstream_with ''[]'')) ''203.0.113.7'' saturated_env
     = (False, saturated_env)
   \<and> fetch (world_at 100 (upstream_with ''[]'')) crash_request saturated_env
     = (Responded (json_response 429 (Some ''https://support.vros.cat'')
          (ErrorJson ''Rate limit exceeded. Please try again later.'')), saturated_env, [])"
  by (simp add: fixture_defs gateway_defs)

end
